theory Spec2Isabelle
  imports Complex_Main
begin

section \<open>Data model\<close>

text \<open>
  The program is a browser page script.  Its state is the \<^verbatim>\<open>AudioManager\<close> singleton, the
  pending browser timers and the part of the DOM the script reads back (the scene
  container's class list and the bubble elements).  All of it is one record, passed through
  every operation.

  An \<^verbatim>\<open>Audio\<close> element is a record of the properties the script touches.  Every element is
  referenced from a single place (a map entry or a field of the manager), so elements are
  stored by value; \<open>ident\<close> is the object's identity, the number of the
  \<^verbatim>\<open>new Audio\<close> call that made it.  Volumes and times are JavaScript numbers; they are
  modelled as exact rationals, times in milliseconds.  Calls of \<^verbatim>\<open>play()\<close> and
  \<^verbatim>\<open>pause()\<close> are appended to the log \<open>device\<close>; the device is taken to accept every
  \<^verbatim>\<open>play()\<close> (a rejection is only logged by the script, apart from the mp3 retry of the
  pop sound).

  The fifteen per-persona fields of the manager (\<^verbatim>\<open>introAudio\<close>, \<^verbatim>\<open>copilotAudio\<close>, ...) with
  their identical play and stop methods are one map \<open>oneShot\<close> from a track name to the
  element held in the field.

  A pending timer carries its callback as a value of the datatype \<open>callback\<close>: one
  constructor for each closure the script hands to \<^verbatim>\<open>setTimeout\<close> or \<^verbatim>\<open>setInterval\<close>,
  holding the variables the closure captured (for a fade, the captured volumes and the step
  counter).  Timers whose callbacks only restyle elements are left out, as are style
  properties and the decorative tree and fog elements.

  \<open>trace\<close> records, with the clock time, each call of a transition's \<^verbatim>\<open>onStart\<close> and
  \<^verbatim>\<open>onComplete\<close> and each call of \<^verbatim>\<open>openScene3/5/7/9\<close>.

  A bubble is the element together with the variables of the closure that \<^verbatim>\<open>expandBubble\<close>
  attaches to its button (\<open>currentPage\<close>, \<open>totalPages\<close>; \<open>wired\<close> says the listener
  exists).  \<open>sentenceEls\<close> is the number of \<^verbatim>\<open>.sentence\<close> elements the bubble's content
  holds once the template is injected, \<open>hasCta\<close> whether it holds the \<^verbatim>\<open>#bubble-cta\<close>
  button, \<open>dataset\<close> the keys set to \<^verbatim>\<open>'true'\<close>.  Removed elements stay in the list with
  \<open>attached = False\<close>, as the objects stay alive for the closures that hold them.
  \<open>scene2Content\<close> is the list of bubbles that \<^verbatim>\<open>spawnScene2\<close> obtains from the page
  template (or builds procedurally).
\<close>

record audio =
  ident :: nat
  src :: string
  volume :: rat
  loop :: bool
  muted :: bool
  paused :: bool
  currentTime :: rat

datatype dev_call = Play nat string | Pause nat string

datatype track =
    Intro | Copilot | Chat1 | Chat2 | WatIsAI | Geneve | PaulBlok | Michiel
  | Joey | Kathleen | Marieke | RronNushi | Rawaz | Tobias1 | Tobias2

datatype callback =
    FadeToLevelTick "(string \<times> rat) list" rat nat
  | FadeOutTick "(string \<times> rat) list" nat
  | FadeInTick "(string \<times> rat) list" nat
  | Scene9FadeOutTick "(string \<times> rat) list" rat nat
  | BirdFadeInTick nat
  | AmbientRetarget string
  | TransitionComplete string
  | PopulateScene nat
  | PopRemove nat nat
  | CheckRemaining nat
  | Phase3 nat
  | RevealContent nat
  | Scene2Fallback nat
  | Scene2Ambient
  | FadeInLater
  | CrowSound

record timer =
  tid :: nat
  due :: rat
  period :: "rat option"
  cb :: callback

datatype event = OnStart string | OnComplete string | OpenScene nat

record bubble =
  bid :: nat
  attached :: bool
  classList :: "string list"
  dataset :: "string list"
  sentenceEls :: nat
  hasCta :: bool
  ctaText :: string
  dynamicSize :: "int option"
  wired :: bool
  currentPage :: nat
  totalPages :: nat

record state =
  ambientLayers :: "(string \<times> audio) list"
  birdLayers :: "(string \<times> audio) list"
  audioEnabled :: bool
  audioInitialized :: bool
  pendingSceneAudio :: "nat option"
  transitionAudio :: "audio option"
  oneShot :: "track \<Rightarrow> audio option"
  crowSoundTimeout :: "nat option"
  nextAudio :: nat
  device :: "dev_call list"
  now :: rat
  timers :: "timer list"
  nextTimer :: nat
  sceneEl :: bool
  sceneClasses :: "string list"
  bubbles :: "bubble list"
  nextBubble :: nat
  scene2Content :: "bubble list"
  trace :: "(rat \<times> event) list"

section \<open>Playback device and keyed maps\<close>

text \<open>
  A JavaScript \<^verbatim>\<open>Map\<close> is an association list in insertion order: \<open>map_of\<close> is
  \<^verbatim>\<open>get\<close>, \<open>mapSet\<close> is \<^verbatim>\<open>set\<close>, \<open>mapUpd\<close> mutates the object stored under a key and
  \<open>forEach\<close> mutates every stored object in turn.
\<close>

definition newAudio :: "string \<Rightarrow> state \<Rightarrow> audio \<times> state" where
  "newAudio path s =
     (\<lparr>ident = nextAudio s, src = path, volume = 1, loop = False, muted = False,
       paused = True, currentTime = 0\<rparr>,
      s\<lparr>nextAudio := Suc (nextAudio s)\<rparr>)"

definition devPlay :: "audio \<Rightarrow> state \<Rightarrow> state" where
  "devPlay a s = s\<lparr>device := device s @ [Play (ident a) (src a)]\<rparr>"

definition devPause :: "audio \<Rightarrow> state \<Rightarrow> state" where
  "devPause a s = s\<lparr>device := device s @ [Pause (ident a) (src a)]\<rparr>"

definition stopped :: "audio \<Rightarrow> audio" where
  "stopped a = a\<lparr>paused := True, currentTime := 0\<rparr>"

fun mapUpd :: "'k \<Rightarrow> ('v \<Rightarrow> 'v) \<Rightarrow> ('k \<times> 'v) list \<Rightarrow> ('k \<times> 'v) list" where
  "mapUpd k f [] = []"
| "mapUpd k f (e # es) = (if fst e = k then (fst e, f (snd e)) # es else e # mapUpd k f es)"

definition mapSet :: "'k \<Rightarrow> 'v \<Rightarrow> ('k \<times> 'v) list \<Rightarrow> ('k \<times> 'v) list" where
  "mapSet k v es = (if k \<in> set (map fst es) then mapUpd k (\<lambda>_. v) es else es @ [(k, v)])"

definition forEach :: "('k \<Rightarrow> 'v \<Rightarrow> 'v) \<Rightarrow> ('k \<times> 'v) list \<Rightarrow> ('k \<times> 'v) list" where
  "forEach f es = map (\<lambda>e. (fst e, f (fst e) (snd e))) es"

section \<open>Scheduler\<close>

text \<open>
  \<open>setTimeout\<close> and \<open>setInterval\<close> append a timer.  The only \<^verbatim>\<open>clearInterval\<close> calls of
  the script are made by an interval's own callback on itself; the event loop takes a timer
  off the list before it runs the callback, and the callback of an interval puts it back
  for the next period (\<open>rearm\<close>, with the closure's updated variables) unless it has
  cleared itself.
\<close>

definition setTimeout :: "callback \<Rightarrow> rat \<Rightarrow> state \<Rightarrow> state" where
  "setTimeout c d s =
     s\<lparr>timers := timers s @ [\<lparr>tid = nextTimer s, due = now s + d, period = None, cb = c\<rparr>],
       nextTimer := Suc (nextTimer s)\<rparr>"

definition setInterval :: "callback \<Rightarrow> rat \<Rightarrow> state \<Rightarrow> state" where
  "setInterval c d s =
     s\<lparr>timers := timers s @ [\<lparr>tid = nextTimer s, due = now s + d, period = Some d, cb = c\<rparr>],
       nextTimer := Suc (nextTimer s)\<rparr>"

definition clearTimeout :: "nat \<Rightarrow> state \<Rightarrow> state" where
  "clearTimeout i s = s\<lparr>timers := filter (\<lambda>tm. tid tm \<noteq> i) (timers s)\<rparr>"

definition rearm :: "timer \<Rightarrow> callback \<Rightarrow> state \<Rightarrow> state" where
  "rearm tm c s =
     s\<lparr>timers := timers s @
        [tm\<lparr>due := due tm + (case period tm of None \<Rightarrow> 0 | Some p \<Rightarrow> p), cb := c\<rparr>]\<rparr>"

section \<open>AudioManager\<close>

type_synonym layer = "string \<times> string \<times> rat"

definition earlySceneAudio :: "layer list" where
  "earlySceneAudio =
     [(''frogs'', ''frogs.mp3'', 1/4), (''night'', ''night.mp3'', 1/4),
      (''insects'', ''insects.mp3'', 1/2)]"

definition lateSceneAudio :: "layer list" where
  "lateSceneAudio =
     [(''frogs'', ''frogs.mp3'', 1/4), (''night'', ''night.mp3'', 1/2),
      (''insects'', ''insects.mp3'', 1/4)]"

definition sceneConfig :: "nat \<Rightarrow> layer list option" where
  "sceneConfig sceneNum =
     (if sceneNum = 1 \<or> sceneNum = 2 then Some earlySceneAudio
      else if sceneNum = 3 \<or> sceneNum = 4 \<or> sceneNum = 5 then Some lateSceneAudio
      else None)"

definition configuredVolume :: "nat \<Rightarrow> string \<Rightarrow> rat option" where
  "configuredVolume sceneNum lid =
     (case sceneConfig sceneNum of
        None \<Rightarrow> None
      | Some config \<Rightarrow> map_option snd (map_of config lid))"

definition retargetLayer :: "layer \<Rightarrow> state \<Rightarrow> state" where
  "retargetLayer l s =
     (case map_of (ambientLayers s) (fst l) of
        None \<Rightarrow> s
      | Some a \<Rightarrow>
          s\<lparr>ambientLayers := mapUpd (fst l) (\<lambda>a. a\<lparr>volume := snd (snd l)\<rparr>) (ambientLayers s)\<rparr>)"

definition startLayer :: "layer \<Rightarrow> state \<Rightarrow> state" where
  "startLayer l s =
     (let (a, s1) = newAudio (''assets/audio/'' @ fst (snd l)) s;
          a1 = a\<lparr>loop := True, volume := snd (snd l), muted := True\<rparr>;
          s2 = devPlay a1 s1
      in s2\<lparr>ambientLayers := mapSet (fst l) (a1\<lparr>paused := False\<rparr>) (ambientLayers s2)\<rparr>)"

definition playAmbient :: "nat \<Rightarrow> state \<Rightarrow> state" where
  "playAmbient sceneNum s =
     (if \<not> audioInitialized s \<and> sceneNum = 1 then s\<lparr>pendingSceneAudio := Some sceneNum\<rparr>
      else if \<not> audioEnabled s then s
      else case sceneConfig sceneNum of
             None \<Rightarrow> s
           | Some config \<Rightarrow>
               if 0 < length (ambientLayers s) then fold retargetLayer config s
               else fold startLayer config s)"

definition unmuteLayer :: "string \<times> audio \<Rightarrow> state \<Rightarrow> state" where
  "unmuteLayer e s =
     (let s1 = (if paused (snd e) then devPlay (snd e) s else s)
      in s1\<lparr>ambientLayers :=
            mapUpd (fst e) (\<lambda>a. a\<lparr>muted := False, paused := False\<rparr>) (ambientLayers s1)\<rparr>)"

definition unmuteAudio :: "state \<Rightarrow> state" where
  "unmuteAudio s = fold unmuteLayer (ambientLayers s) s"

definition init :: "state \<Rightarrow> state" where
  "init s = playAmbient 1 (s\<lparr>audioInitialized := True\<rparr>)"

definition stopTransition :: "state \<Rightarrow> state" where
  "stopTransition s =
     (case transitionAudio s of
        None \<Rightarrow> s
      | Some a \<Rightarrow> (devPause a s)\<lparr>transitionAudio := None\<rparr>)"

definition playTransition :: "string \<Rightarrow> bool \<Rightarrow> rat \<Rightarrow> state \<Rightarrow> state" where
  "playTransition audioFile lp vol s =
     (if \<not> audioEnabled s then s
      else let s1 = stopTransition s;
               (a, s2) = newAudio (''assets/audio/'' @ audioFile) s1;
               a1 = a\<lparr>volume := vol, loop := lp\<rparr>;
               s3 = devPlay a1 s2
           in if lp then s3\<lparr>transitionAudio := Some (a1\<lparr>paused := False\<rparr>)\<rparr> else s3)"

definition playPopSound :: "state \<Rightarrow> state" where
  "playPopSound s =
     (if \<not> audioEnabled s then s
      else let (a, s1) = newAudio ''assets/audio/BubblePopRev.wav'' s
           in devPlay (a\<lparr>volume := 3/5\<rparr>) s1)"

fun trackFile :: "track \<Rightarrow> string" where
  "trackFile Intro = ''Intro.mp3''"
| "trackFile Copilot = ''Copilot.mp3''"
| "trackFile Chat1 = ''Chat1.mp3''"
| "trackFile Chat2 = ''Chat2.mp3''"
| "trackFile WatIsAI = ''WatisAI.mp3''"
| "trackFile Geneve = ''Geneve Angelista.mp3''"
| "trackFile PaulBlok = ''Paul Blok.mp3''"
| "trackFile Michiel = ''Michiel Bernsen.mp3''"
| "trackFile Joey = ''Joey.mp3''"
| "trackFile Kathleen = ''Kathleen van Dam.mp3''"
| "trackFile Marieke = ''MariekeMol.mp3''"
| "trackFile RronNushi = ''RronNushi.mp3''"
| "trackFile Rawaz = ''RawazTahir.mp3''"
| "trackFile Tobias1 = ''Tobias1.mp3''"
| "trackFile Tobias2 = ''Tobias2.mp3''"

definition playTrack :: "track \<Rightarrow> state \<Rightarrow> state" where
  "playTrack t s =
     (if \<not> audioEnabled s then s
      else let s1 = (case oneShot s t of None \<Rightarrow> s | Some old \<Rightarrow> devPause old s);
               (a, s2) = newAudio (''assets/audio/'' @ trackFile t) s1;
               a1 = a\<lparr>volume := 1/2, loop := False\<rparr>;
               s3 = devPlay a1 s2
           in s3\<lparr>oneShot := (oneShot s3)(t := Some (a1\<lparr>paused := False\<rparr>))\<rparr>)"

definition stopTrack :: "track \<Rightarrow> state \<Rightarrow> state" where
  "stopTrack t s =
     (case oneShot s t of
        None \<Rightarrow> s
      | Some a \<Rightarrow> (devPause a s)\<lparr>oneShot := (oneShot s)(t := None)\<rparr>)"

definition playCrowSound :: "state \<Rightarrow> state" where
  "playCrowSound s =
     (if \<not> audioEnabled s then s
      else let (a, s1) = newAudio ''assets/audio/crow-sfx-318131.mp3'' s
           in devPlay (a\<lparr>volume := 1/2, loop := False\<rparr>) s1)"

definition cancelCrowSound :: "state \<Rightarrow> state" where
  "cancelCrowSound s =
     (case crowSoundTimeout s of
        None \<Rightarrow> s
      | Some i \<Rightarrow> (clearTimeout i s)\<lparr>crowSoundTimeout := None\<rparr>)"


subsection \<open>Volume envelopes\<close>

text \<open>
  Each fade method captures the current volumes, starts an interval of period
  \<^verbatim>\<open>duration / steps\<close> and returns; \<open>fadeToLevelTick\<close>, \<open>fadeOutTick\<close> and \<open>fadeInTick\<close>
  are the interval callbacks, which receive the captured map and the step counter from the
  timer.  \<open>scaleFrom\<close> is the assignment \<^verbatim>\<open>audio.volume = captured.get(id) * factor\<close>; the
  layer sets of the script always hold the captured ids, and a layer without a captured
  volume is left as it is.
\<close>

definition steps :: nat where
  "steps = 50"

definition captureVolumes :: "(string \<times> audio) list \<Rightarrow> (string \<times> rat) list" where
  "captureVolumes ls = map (\<lambda>e. (fst e, volume (snd e))) ls"

definition scaleFrom :: "(string \<times> rat) list \<Rightarrow> rat \<Rightarrow> string \<Rightarrow> audio \<Rightarrow> audio" where
  "scaleFrom vols factor lid a =
     (case map_of vols lid of None \<Rightarrow> a | Some v \<Rightarrow> a\<lparr>volume := v * factor\<rparr>)"

definition pauseAmbient :: "state \<Rightarrow> state" where
  "pauseAmbient s =
     s\<lparr>ambientLayers := forEach (\<lambda>lid a. stopped a) (ambientLayers s),
       device := device s @ map (\<lambda>e. Pause (ident (snd e)) (src (snd e))) (ambientLayers s)\<rparr>"

definition fadeAmbientToLevel :: "rat \<Rightarrow> rat \<Rightarrow> state \<Rightarrow> state" where
  "fadeAmbientToLevel targetLevel dur s =
     (if length (ambientLayers s) = 0 then s
      else setInterval (FadeToLevelTick (captureVolumes (ambientLayers s)) targetLevel 0)
             (dur / of_nat steps) s)"

definition fadeToLevelTick ::
  "timer \<Rightarrow> (string \<times> rat) list \<Rightarrow> rat \<Rightarrow> nat \<Rightarrow> state \<Rightarrow> state" where
  "fadeToLevelTick tm startVolumes targetLevel step0 s =
     (let step = Suc step0;
          progress = of_nat step / of_nat steps;
          s1 = s\<lparr>ambientLayers :=
                  forEach (scaleFrom startVolumes (1 - progress * (1 - targetLevel)))
                    (ambientLayers s)\<rparr>
      in if steps \<le> step then s1
         else rearm tm (FadeToLevelTick startVolumes targetLevel step) s1)"

definition fadeOutAmbient :: "rat \<Rightarrow> state \<Rightarrow> state" where
  "fadeOutAmbient dur s =
     (if length (ambientLayers s) = 0 then s
      else setInterval (FadeOutTick (captureVolumes (ambientLayers s)) 0)
             (dur / of_nat steps) s)"

definition fadeOutTick :: "timer \<Rightarrow> (string \<times> rat) list \<Rightarrow> nat \<Rightarrow> state \<Rightarrow> state" where
  "fadeOutTick tm startVolumes step0 s =
     (let step = Suc step0;
          progress = of_nat step / of_nat steps;
          s1 = s\<lparr>ambientLayers :=
                  forEach (scaleFrom startVolumes (1 - progress)) (ambientLayers s)\<rparr>
      in if steps \<le> step then pauseAmbient s1
         else rearm tm (FadeOutTick startVolumes step) s1)"

definition fadeInAmbient :: "rat \<Rightarrow> state \<Rightarrow> state" where
  "fadeInAmbient dur s =
     (if length (ambientLayers s) = 0 then s
      else let targetVolumes = captureVolumes (ambientLayers s);
               s1 = s\<lparr>ambientLayers := forEach (\<lambda>lid a. a\<lparr>volume := 0\<rparr>) (ambientLayers s)\<rparr>
           in setInterval (FadeInTick targetVolumes 0) (dur / of_nat steps) s1)"

definition fadeInTick :: "timer \<Rightarrow> (string \<times> rat) list \<Rightarrow> nat \<Rightarrow> state \<Rightarrow> state" where
  "fadeInTick tm targetVolumes step0 s =
     (let step = Suc step0;
          progress = of_nat step / of_nat steps;
          s1 = s\<lparr>ambientLayers := forEach (scaleFrom targetVolumes progress) (ambientLayers s)\<rparr>
      in if steps \<le> step
         then s1\<lparr>ambientLayers := forEach (scaleFrom targetVolumes 1) (ambientLayers s1)\<rparr>
         else rearm tm (FadeInTick targetVolumes step) s1)"

definition birds :: "layer list" where
  "birds = [(''bird1'', ''Birdsong1.mp3'', 3/5), (''bird2'', ''Birdsong2.mp3'', 3/5)]"

definition startBird :: "layer \<Rightarrow> state \<Rightarrow> state" where
  "startBird l s =
     (let (a, s1) = newAudio (''assets/audio/'' @ fst (snd l)) s;
          a1 = a\<lparr>loop := True, volume := 0, muted := False\<rparr>;
          s2 = devPlay a1 s1
      in s2\<lparr>birdLayers := mapSet (fst l) (a1\<lparr>paused := False\<rparr>) (birdLayers s2)\<rparr>)"

definition birdFadeInTick :: "timer \<Rightarrow> nat \<Rightarrow> state \<Rightarrow> state" where
  "birdFadeInTick tm step0 s =
     (let step = Suc step0;
          progress = of_nat step / of_nat steps;
          s1 = s\<lparr>birdLayers := forEach (\<lambda>lid a. a\<lparr>volume := 3/5 * progress\<rparr>) (birdLayers s)\<rparr>
      in if steps \<le> step
         then s1\<lparr>birdLayers := forEach (\<lambda>lid a. a\<lparr>volume := 3/5\<rparr>) (birdLayers s1)\<rparr>
         else rearm tm (BirdFadeInTick step) s1)"

definition fadeInBirdAmbient :: "rat \<Rightarrow> state \<Rightarrow> state" where
  "fadeInBirdAmbient dur s =
     (if length (birdLayers s) = 0 then s
      else let s1 = s\<lparr>birdLayers := forEach (\<lambda>lid a. a\<lparr>volume := 0\<rparr>) (birdLayers s)\<rparr>
           in setInterval (BirdFadeInTick 0) (dur / of_nat steps) s1)"

definition scene9FadeOutTick ::
  "timer \<Rightarrow> (string \<times> rat) list \<Rightarrow> rat \<Rightarrow> nat \<Rightarrow> state \<Rightarrow> state" where
  "scene9FadeOutTick tm startVolumes fadeInDuration step0 s =
     (let step = Suc step0;
          progress = of_nat step / of_nat steps;
          s1 = s\<lparr>ambientLayers :=
                  forEach (scaleFrom startVolumes (1 - progress)) (ambientLayers s)\<rparr>
      in if steps \<le> step
         then let s2 = (pauseAmbient s1)\<lparr>ambientLayers := []\<rparr>;
                  s3 = fold startBird birds s2
              in setInterval (BirdFadeInTick 0) (fadeInDuration / of_nat steps) s3
         else rearm tm (Scene9FadeOutTick startVolumes fadeInDuration step) s1)"

definition switchToScene9Ambient :: "rat \<Rightarrow> rat \<Rightarrow> state \<Rightarrow> state" where
  "switchToScene9Ambient fadeOutDuration fadeInDuration s =
     (if 0 < length (ambientLayers s)
      then setInterval
             (Scene9FadeOutTick (captureVolumes (ambientLayers s)) fadeInDuration 0)
             (fadeOutDuration / of_nat steps) s
      else fadeInBirdAmbient fadeInDuration (fold startBird birds s))"

section \<open>Scene transitions\<close>

text \<open>
  \<open>TRANSITIONS\<close> holds the numeric fields of the four configured transitions.  Of the
  \<^verbatim>\<open>onStart\<close> and \<^verbatim>\<open>onComplete\<close> callbacks the model keeps the class changes of the scene
  container, the call of \<^verbatim>\<open>switchToScene9Ambient\<close> made by transition 8-9, and the trace
  entry.
\<close>

record transition =
  duration :: rat
  audioFadeOut :: rat
  audioFadeIn :: rat

definition TRANSITIONS :: "string \<Rightarrow> transition option" where
  "TRANSITIONS k =
     (if k = ''2-3'' \<or> k = ''4-5'' \<or> k = ''6-7''
      then Some \<lparr>duration = 5500, audioFadeOut = 500, audioFadeIn = 300\<rparr>
      else if k = ''8-9''
      then Some \<lparr>duration = 6000, audioFadeOut = 800, audioFadeIn = 500\<rparr>
      else None)"

definition classAdd :: "string \<Rightarrow> string list \<Rightarrow> string list" where
  "classAdd c cs = (if c \<in> set cs then cs else cs @ [c])"

definition classRemove :: "string \<Rightarrow> string list \<Rightarrow> string list" where
  "classRemove c cs = filter (\<lambda>x. x \<noteq> c) cs"

definition record_event :: "event \<Rightarrow> state \<Rightarrow> state" where
  "record_event e s = s\<lparr>trace := trace s @ [(now s, e)]\<rparr>"

definition fromScene :: "string \<Rightarrow> string" where
  "fromScene k = take 1 k"

definition toScene :: "string \<Rightarrow> string" where
  "toScene k = drop 2 k"

definition targetScene :: "string \<Rightarrow> nat" where
  "targetScene k =
     (if toScene k = ''3'' then 3 else if toScene k = ''5'' then 5
      else if toScene k = ''7'' then 7 else if toScene k = ''9'' then 9 else 0)"

definition onStart :: "string \<Rightarrow> state \<Rightarrow> state" where
  "onStart k s =
     (let s1 = record_event (OnStart k) s;
          s2 = s1\<lparr>sceneClasses :=
                  classRemove (''scene-'' @ fromScene k)
                    (classAdd (''transitioning-'' @ k) (sceneClasses s1))\<rparr>
      in if k = ''8-9'' then switchToScene9Ambient 1500 1500 s2 else s2)"

definition onComplete :: "string \<Rightarrow> state \<Rightarrow> state" where
  "onComplete k s =
     (let s1 = record_event (OnComplete k) s
      in s1\<lparr>sceneClasses :=
             classAdd (''scene-'' @ toScene k)
               (classRemove (''transitioning-'' @ k) (sceneClasses s1))\<rparr>)"

definition usesSteps :: "string \<Rightarrow> bool" where
  "usesSteps k = (k = ''2-3'' \<or> k = ''4-5'' \<or> k = ''6-7'')"

definition runSceneTransition :: "string \<Rightarrow> state \<Rightarrow> state" where
  "runSceneTransition transitionKey s =
     (if \<not> sceneEl s then s
      else case TRANSITIONS transitionKey of
             None \<Rightarrow> s
           | Some config \<Rightarrow>
               let s1 = (if usesSteps transitionKey
                         then fadeAmbientToLevel (1/2) (audioFadeOut config)
                                (playTransition ''Steps.wav'' True (3/5) s)
                         else if transitionKey \<noteq> ''3-4''
                         then playTransition ''Swoosh.wav'' False (7/10) s
                         else s);
                   s2 = onStart transitionKey s1;
                   s3 = setTimeout (AmbientRetarget transitionKey) (audioFadeIn config) s2
               in setTimeout (TransitionComplete transitionKey) (duration config) s3)"

definition ambientRetarget :: "string \<Rightarrow> state \<Rightarrow> state" where
  "ambientRetarget transitionKey s =
     (let s1 = playAmbient (targetScene transitionKey) s
      in if usesSteps transitionKey then fadeInAmbient 800 s1 else s1)"

definition transitionComplete :: "string \<Rightarrow> state \<Rightarrow> state" where
  "transitionComplete transitionKey s =
     (let s1 = onComplete transitionKey s
      in if usesSteps transitionKey then stopTransition s1 else s1)"


section \<open>Bubbles\<close>

text \<open>
  \<open>expandBubble\<close> is the synchronous part of the function of that name; \<open>phase3\<close> and
  \<open>revealContent\<close> are its two nested timer callbacks that start the persona's audio.
  \<open>revealTracks\<close> lists, in the order of the script's \<^verbatim>\<open>if\<close> statements, the tracks started
  for a bubble when its content is revealed, \<open>pageTwoTracks\<close> the tracks started when it is
  turned to page 2; together they are the tracks bound to the bubble.

  \<open>ctaClick\<close> is the click listener of the bubble's button.  \<open>popScene\<close> is the block
  shared by the four \<^verbatim>\<open>dataset.sceneN\<close> branches, \<open>popRemove\<close> its 300 ms callback and
  \<open>checkRemaining\<close> the nested 50 ms callback of scenes 4, 6 and 8.  \<open>openTransitionScene\<close>
  is the common shape of \<^verbatim>\<open>openScene3/5/7/9\<close>; the content they append when the
  transition is over (timer \<open>PopulateScene\<close>) is not modelled.
\<close>

definition baseSentences :: int where
  "baseSentences = 3"

definition baseSize :: int where
  "baseSize = 520"

definition maxSentences :: int where
  "maxSentences = 5"

definition growthPerSentence :: int where
  "growthPerSentence = 80"

definition calculateBubbleSize :: "int \<Rightarrow> int" where
  "calculateBubbleSize sentenceCount =
     (let effectiveCount = min sentenceCount maxSentences in
      if effectiveCount \<le> baseSentences then baseSize
      else (let extraSentences = effectiveCount - baseSentences in
            baseSize + extraSentences * growthPerSentence))"


definition getBubble :: "nat \<Rightarrow> state \<Rightarrow> bubble option" where
  "getBubble i s = find (\<lambda>b. bid b = i) (bubbles s)"

definition updBubble :: "nat \<Rightarrow> (bubble \<Rightarrow> bubble) \<Rightarrow> state \<Rightarrow> state" where
  "updBubble i f s = s\<lparr>bubbles := map (\<lambda>b. if bid b = i then f b else b) (bubbles s)\<rparr>"

definition hasClass :: "string \<Rightarrow> bubble \<Rightarrow> bool" where
  "hasClass c b = (c \<in> set (classList b))"

definition hasData :: "string \<Rightarrow> bubble \<Rightarrow> bool" where
  "hasData k b = (k \<in> set (dataset b))"

definition querySelectorAll :: "string \<Rightarrow> state \<Rightarrow> bubble list" where
  "querySelectorAll k s = filter (\<lambda>b. attached b \<and> hasData k b) (bubbles s)"

definition removeAll_data :: "string \<Rightarrow> state \<Rightarrow> state" where
  "removeAll_data k s =
     s\<lparr>bubbles := map (\<lambda>b. if attached b \<and> hasData k b then b\<lparr>attached := False\<rparr> else b)
                    (bubbles s)\<rparr>"

definition sentencesPerPage :: nat where
  "sentencesPerPage = 5"

definition ceilDiv :: "nat \<Rightarrow> nat \<Rightarrow> nat" where
  "ceilDiv n d = (n + d - 1) div d"

definition calculateSentenceDelay :: "nat \<Rightarrow> nat" where
  "calculateSentenceDelay n =
     (if n \<le> 3 then 5000 else if n \<le> 6 then 3000 else if n \<le> 10 then 2000 else 1500)"

definition revealTracks :: "bubble \<Rightarrow> track list" where
  "revealTracks b =
     (if \<not> hasData ''scene2'' b \<and> \<not> hasData ''scene4'' b \<and> \<not> hasData ''scene6'' b
         \<and> \<not> hasData ''scene8'' b then [Intro] else [])
     @ (if hasClass ''bubble-orbit-alpha'' b then [Copilot] else [])
     @ (if hasClass ''bubble-orbit-beta'' b then [Chat1] else [])
     @ (if hasClass ''bubble-orbit-gamma'' b then [WatIsAI] else [])
     @ (if hasClass ''bubble-delta'' b then [Geneve] else [])
     @ (if hasClass ''bubble-epsilon'' b then [PaulBlok] else [])
     @ (if hasClass ''bubble-zeta'' b then [Michiel] else [])
     @ (if hasClass ''bubble-eta'' b then [Joey] else [])
     @ (if hasClass ''bubble-theta'' b then [Kathleen] else [])
     @ (if hasClass ''bubble-iota'' b then [Marieke] else [])
     @ (if hasClass ''bubble-kappa'' b then [RronNushi] else [])
     @ (if hasClass ''bubble-lambda'' b then [Rawaz] else [])
     @ (if hasClass ''bubble-tobias'' b then [Tobias1] else [])"

definition pageTwoTracks :: "bubble \<Rightarrow> track list" where
  "pageTwoTracks b =
     (if hasClass ''bubble-orbit-beta'' b then [Chat2] else [])
     @ (if hasClass ''bubble-tobias'' b then [Tobias2] else [])"

definition boundTracks :: "bubble \<Rightarrow> track list" where
  "boundTracks b = revealTracks b @ pageTwoTracks b"

definition allTracks :: "track list" where
  "allTracks =
     [Intro, Copilot, Chat1, Chat2, WatIsAI, Geneve, PaulBlok, Michiel, Joey, Kathleen,
      Marieke, RronNushi, Rawaz, Tobias1, Tobias2]"

definition expandBubble :: "nat \<Rightarrow> state \<Rightarrow> state" where
  "expandBubble i s =
     (case getBubble i s of
        None \<Rightarrow> s
      | Some bubble \<Rightarrow>
          if hasClass ''expanded'' bubble then s
          else if \<not> sceneEl s then s
          else
            let s1 = cancelCrowSound s;
                sentenceCount = (if sentenceEls bubble = 0 then 3 else sentenceEls bubble);
                bubbleSize = calculateBubbleSize (int sentenceCount);
                pages = ceilDiv sentenceCount sentencesPerPage;
                s2 = updBubble i
                       (\<lambda>b. b\<lparr>dynamicSize := Some bubbleSize,
                               currentPage := 1,
                               totalPages := pages,
                               ctaText := (if hasCta b
                                           then (if 1 < pages then ''Volgende'' else ''Pop!'')
                                           else ctaText b),
                               wired := hasCta b,
                               classList := classAdd ''expanded'' (classList b)\<rparr>) s1;
                s3 = s2\<lparr>sceneClasses :=
                        classAdd ''scene--zoom''
                          (classAdd ''scene--expanded''
                             (classRemove ''scene--zooming''
                                (classAdd ''scene--zooming'' (sceneClasses s2))))\<rparr>
            in setTimeout (Phase3 i) 2700 s3)"

definition phase3 :: "nat \<Rightarrow> state \<Rightarrow> state" where
  "phase3 i s = setTimeout (RevealContent i) 100 s"

definition revealContent :: "nat \<Rightarrow> state \<Rightarrow> state" where
  "revealContent i s =
     (case getBubble i s of
        None \<Rightarrow> s
      | Some bubble \<Rightarrow>
          fold playTrack (revealTracks bubble)
            (updBubble i (\<lambda>b. b\<lparr>classList := classAdd ''bubble-show-content'' (classList b)\<rparr>) s))"

definition spawnScene2 :: "state \<Rightarrow> state" where
  "spawnScene2 s =
     (let old = map (\<lambda>b. if hasClass ''bubble'' b then b\<lparr>attached := False\<rparr> else b) (bubbles s);
          new = map (\<lambda>(n, b). b\<lparr>bid := nextBubble s + n, attached := True,
                                  dataset := ''scene2'' # dataset b\<rparr>)
                  (enumerate 0 (scene2Content s))
      in s\<lparr>bubbles := old @ new,
           nextBubble := nextBubble s + length (scene2Content s),
           sceneClasses := classAdd ''scene-2'' (sceneClasses s)\<rparr>)"

definition scene2Ambient :: "state \<Rightarrow> state" where
  "scene2Ambient s = setTimeout FadeInLater 100 (unmuteAudio (playAmbient 2 s))"

definition popFinished :: "nat \<Rightarrow> state \<Rightarrow> state" where
  "popFinished c s =
     setTimeout Scene2Ambient 550 (spawnScene2 (updBubble c (\<lambda>b. b\<lparr>attached := False\<rparr>) s))"

definition scene2Fallback :: "nat \<Rightarrow> state \<Rightarrow> state" where
  "scene2Fallback c s =
     (case getBubble c s of
        None \<Rightarrow> s
      | Some clone \<Rightarrow> if attached clone then popFinished c s else s)"

definition animationend :: "nat \<Rightarrow> state \<Rightarrow> state" where
  "animationend c s =
     (case getBubble c s of
        None \<Rightarrow> s
      | Some clone \<Rightarrow> if attached clone \<and> hasClass ''pop'' clone then popFinished c s else s)"

definition openScene2 :: "nat \<Rightarrow> state \<Rightarrow> state" where
  "openScene2 i s =
     (if \<not> sceneEl s then s
      else case getBubble i s of
             None \<Rightarrow> s
           | Some triggerBubble \<Rightarrow>
               let s1 = playTransition ''Swoosh.wav'' False (7/10) s;
                   s2 = fadeOutAmbient 500 s1;
                   s3 = s2\<lparr>sceneClasses := classRemove ''scene--zoom'' (sceneClasses s2)\<rparr>;
                   c = nextBubble s3;
                   clone = triggerBubble\<lparr>bid := c, attached := True,
                             classList := [''bubble'', ''pop''], wired := False\<rparr>;
                   s4 = (updBubble i (\<lambda>b. b\<lparr>attached := False\<rparr>) s3)
                          \<lparr>nextBubble := Suc c\<rparr>;
                   s5 = s4\<lparr>bubbles := bubbles s4 @ [clone]\<rparr>
               in setTimeout (Scene2Fallback c) 450 s5)"

definition transitionDuration :: "string \<Rightarrow> rat" where
  "transitionDuration k = (case TRANSITIONS k of None \<Rightarrow> 0 | Some config \<Rightarrow> duration config)"

definition openTransitionScene :: "nat \<Rightarrow> string \<Rightarrow> string \<Rightarrow> state \<Rightarrow> state" where
  "openTransitionScene n dataKey transitionKey s =
     (let s0 = record_event (OpenScene n) s
      in if \<not> sceneEl s0 then s0
         else let s1 = removeAll_data dataKey s0;
                  s2 = runSceneTransition transitionKey s1
              in setTimeout (PopulateScene n) (transitionDuration transitionKey) s2)"

definition openScene3 :: "state \<Rightarrow> state" where
  "openScene3 = openTransitionScene 3 ''scene2'' ''2-3''"

definition openScene5 :: "state \<Rightarrow> state" where
  "openScene5 = openTransitionScene 5 ''scene4'' ''4-5''"

definition openScene7 :: "state \<Rightarrow> state" where
  "openScene7 = openTransitionScene 7 ''scene6'' ''6-7''"

definition openScene9 :: "state \<Rightarrow> state" where
  "openScene9 = openTransitionScene 9 ''scene8'' ''8-9''"

definition checkRemaining :: "nat \<Rightarrow> state \<Rightarrow> state" where
  "checkRemaining n s =
     (if n = 4 then (if length (querySelectorAll ''scene4'' s) = 0 then openScene5 s else s)
      else if n = 6 then (if length (querySelectorAll ''scene6'' s) = 0 then openScene7 s else s)
      else if n = 8 then (if length (querySelectorAll ''scene8'' s) = 0 then openScene9 s else s)
      else s)"

definition popRemove :: "nat \<Rightarrow> nat \<Rightarrow> state \<Rightarrow> state" where
  "popRemove i n s =
     (let s1 = updBubble i (\<lambda>b. b\<lparr>attached := False\<rparr>) s
      in if n = 2
         then (if length (querySelectorAll ''scene2'' s1) = 0 then openScene3 s1 else s1)
         else setTimeout (CheckRemaining n) 50 s1)"

definition popScene :: "nat \<Rightarrow> nat \<Rightarrow> state \<Rightarrow> state" where
  "popScene i n s =
     (let s1 = updBubble i (\<lambda>b. b\<lparr>classList := classRemove ''expanded'' (classList b)\<rparr>) s;
          s2 = s1\<lparr>sceneClasses :=
                  classRemove ''scene--zoom'' (classRemove ''scene--expanded'' (sceneClasses s1))\<rparr>
      in setTimeout (PopRemove i n) 300 s2)"

definition ctaClick :: "nat \<Rightarrow> state \<Rightarrow> state" where
  "ctaClick i s =
     (case getBubble i s of
        None \<Rightarrow> s
      | Some bubble \<Rightarrow>
          if \<not> wired bubble then s
          else if currentPage bubble < totalPages bubble
          then
            let page = Suc (currentPage bubble);
                s1 = updBubble i (\<lambda>b. b\<lparr>currentPage := page\<rparr>) s;
                s2 = (if hasClass ''bubble-orbit-beta'' bubble \<and> page = 2
                      then playTrack Chat2 (stopTrack Chat1 s1) else s1);
                s3 = (if hasClass ''bubble-tobias'' bubble \<and> page = 2
                      then playTrack Tobias2 (stopTrack Tobias1 s2) else s2)
            in if page = totalPages bubble
               then updBubble i (\<lambda>b. b\<lparr>ctaText := ''Pop!''\<rparr>) s3 else s3
          else
            let s1 = playPopSound s;
                s2 = fold stopTrack allTracks s1
            in if hasData ''scene2'' bubble then popScene i 2 s2
               else if hasData ''scene4'' bubble then popScene i 4 s2
               else if hasData ''scene6'' bubble then popScene i 6 s2
               else if hasData ''scene8'' bubble then popScene i 8 s2
               else openScene2 i s2)"

section \<open>Event loop\<close>

text \<open>
  \<open>dispatch\<close> runs one due timer: the clock moves to the timer's due time and the callback
  runs.  \<open>runUntil t\<close> runs every timer that falls due up to clock time \<open>t\<close>, earliest
  first (and in creation order among equal due times), and leaves the clock at \<open>t\<close>.
  \<open>work\<close> bounds the number of timer runs a callback can still cause; it is the
  termination measure of the loop.
\<close>

definition fire :: "timer \<Rightarrow> state \<Rightarrow> state" where
  "fire tm s =
     (case cb tm of
        FadeToLevelTick sv lvl k \<Rightarrow> fadeToLevelTick tm sv lvl k s
      | FadeOutTick sv k \<Rightarrow> fadeOutTick tm sv k s
      | FadeInTick tv k \<Rightarrow> fadeInTick tm tv k s
      | Scene9FadeOutTick sv fi k \<Rightarrow> scene9FadeOutTick tm sv fi k s
      | BirdFadeInTick k \<Rightarrow> birdFadeInTick tm k s
      | AmbientRetarget k \<Rightarrow> ambientRetarget k s
      | TransitionComplete k \<Rightarrow> transitionComplete k s
      | PopulateScene n \<Rightarrow> s
      | PopRemove i n \<Rightarrow> popRemove i n s
      | CheckRemaining n \<Rightarrow> checkRemaining n s
      | Phase3 i \<Rightarrow> phase3 i s
      | RevealContent i \<Rightarrow> revealContent i s
      | Scene2Fallback c \<Rightarrow> scene2Fallback c s
      | Scene2Ambient \<Rightarrow> scene2Ambient s
      | FadeInLater \<Rightarrow> fadeInAmbient 600 s
      | CrowSound \<Rightarrow> (playCrowSound s)\<lparr>crowSoundTimeout := None\<rparr>)"

fun earliest :: "timer list \<Rightarrow> timer option" where
  "earliest [] = None"
| "earliest (tm # tms) =
     (case earliest tms of
        None \<Rightarrow> Some tm
      | Some u \<Rightarrow> if due u < due tm then Some u else Some tm)"

definition dispatch :: "timer \<Rightarrow> state \<Rightarrow> state" where
  "dispatch tm s = fire tm (s\<lparr>timers := remove1 tm (timers s), now := max (now s) (due tm)\<rparr>)"

fun work :: "callback \<Rightarrow> nat" where
  "work (FadeToLevelTick sv lvl k) = max 1 (steps - k)"
| "work (FadeOutTick sv k) = max 1 (steps - k)"
| "work (FadeInTick tv k) = max 1 (steps - k)"
| "work (BirdFadeInTick k) = max 1 (steps - k)"
| "work (Scene9FadeOutTick sv fi k) = max 1 (steps - k) + steps"
| "work (AmbientRetarget k) = Suc steps"
| "work (TransitionComplete k) = 1"
| "work (PopulateScene n) = 1"
| "work (CheckRemaining n) = 4 * steps + 4"
| "work (PopRemove i n) = 4 * steps + 5"
| "work (Phase3 i) = 2"
| "work (RevealContent i) = 1"
| "work (Scene2Fallback c) = steps + 3"
| "work Scene2Ambient = steps + 2"
| "work FadeInLater = Suc steps"
| "work CrowSound = 1"

definition pendingWork :: "state \<Rightarrow> nat" where
  "pendingWork s = sum_list (map (\<lambda>tm. work (cb tm)) (timers s))"

function runUntil :: "rat \<Rightarrow> state \<Rightarrow> state" where
  "runUntil t s =
     (case earliest (timers s) of
        None \<Rightarrow> s\<lparr>now := max (now s) t\<rparr>
      | Some tm \<Rightarrow>
          if due tm \<le> t then runUntil t (dispatch tm s) else s\<lparr>now := max (now s) t\<rparr>)"
  by pat_completeness auto

section \<open>Reading the trace and the timer list\<close>

text \<open>
  \<open>completions\<close> keeps the \<^verbatim>\<open>onComplete\<close> entries of a trace and \<open>starts\<close> the entries of
  \<^verbatim>\<open>openScene3/5/7/9\<close> and \<^verbatim>\<open>onStart\<close> calls.  \<open>audioOnly\<close> holds for the callbacks of the
  audio manager (fade ticks and the retargeting step of a transition), \<open>quiet\<close> also for
  \<^verbatim>\<open>onComplete\<close> and the content step: a quiet callback calls neither \<^verbatim>\<open>runSceneTransition\<close>
  nor an \<^verbatim>\<open>openScene\<close> function.
\<close>

fun isCompletion :: "callback \<Rightarrow> bool" where
  "isCompletion (TransitionComplete k) = True"
| "isCompletion c = False"

fun audioOnly :: "callback \<Rightarrow> bool" where
  "audioOnly (FadeToLevelTick sv lvl k) = True"
| "audioOnly (FadeOutTick sv k) = True"
| "audioOnly (FadeInTick tv k) = True"
| "audioOnly (Scene9FadeOutTick sv fi k) = True"
| "audioOnly (BirdFadeInTick k) = True"
| "audioOnly (AmbientRetarget k) = True"
| "audioOnly c = False"

fun quiet :: "callback \<Rightarrow> bool" where
  "quiet (TransitionComplete k) = True"
| "quiet (PopulateScene n) = True"
| "quiet c = audioOnly c"

fun isOnComplete :: "event \<Rightarrow> bool" where
  "isOnComplete (OnComplete k) = True"
| "isOnComplete e = False"

definition completions :: "(rat \<times> event) list \<Rightarrow> (rat \<times> event) list" where
  "completions tr = filter (\<lambda>e. isOnComplete (snd e)) tr"

definition starts :: "(rat \<times> event) list \<Rightarrow> (rat \<times> event) list" where
  "starts tr = filter (\<lambda>e. \<not> isOnComplete (snd e)) tr"


section \<open>Sample states\<close>

text \<open>
  \<open>quietPage\<close> is the page right after loading.  \<open>scene2Page\<close> is scene 2 with the ambient
  layers started and three bubbles; the sentence counts are sample content.  The other
  states are reached from it by running the script: \<open>betaOnPageOne\<close> has the beta bubble
  open on page 1 of 2 with its first track playing; in \<open>lateReveal\<close> the alpha bubble was
  popped before its content was revealed, so its track started after the pop;
  \<open>betaOnLastPage\<close> has, in addition, the beta bubble open on its last page.
  \<open>inFlight\<close> is scene 2 at 20 ms into the transition 2-3.  \<open>overlappingFades\<close> is scene 2
  after the two fade calls that the transition 2-3 makes, the second made before the first
  envelope is over.
\<close>

definition quietPage :: state where
  "quietPage =
     \<lparr>ambientLayers = [], birdLayers = [], audioEnabled = True, audioInitialized = False,
      pendingSceneAudio = None, transitionAudio = None, oneShot = (\<lambda>t. None),
      crowSoundTimeout = None, nextAudio = 0, device = [], now = 0, timers = [],
      nextTimer = 0, sceneEl = True, sceneClasses = [], bubbles = [], nextBubble = 0,
      scene2Content = [], trace = []\<rparr>"

definition sampleBubble :: "nat \<Rightarrow> string \<Rightarrow> nat \<Rightarrow> bubble" where
  "sampleBubble i persona n =
     \<lparr>bid = i, attached = True, classList = [''bubble'', persona], dataset = [''scene2''],
      sentenceEls = n, hasCta = True, ctaText = [], dynamicSize = None, wired = False,
      currentPage = 0, totalPages = 0\<rparr>"

definition scene2Page :: state where
  "scene2Page =
     (init quietPage)\<lparr>bubbles :=
        [sampleBubble 0 ''bubble-orbit-alpha'' 3, sampleBubble 1 ''bubble-orbit-beta'' 7,
         sampleBubble 2 ''bubble-orbit-gamma'' 0],
        nextBubble := 3\<rparr>"


definition lateReveal :: state where
  "lateReveal = runUntil 2800 (ctaClick 0 (expandBubble 0 scene2Page))"

definition betaOnLastPage :: state where
  "betaOnLastPage = ctaClick 1 (runUntil 5700 (expandBubble 1 lateReveal))"

definition frogsLayer :: audio where
  "frogsLayer =
     \<lparr>ident = 0, src = ''assets/audio/frogs.mp3'', volume = 1/4, loop = True, muted = True,
      paused = False, currentTime = 0\<rparr>"

definition betaPageOne :: bubble where
  "betaPageOne =
     \<lparr>bid = 1, attached = True,
      classList = [''bubble'', ''bubble-orbit-beta'', ''expanded'', ''bubble-show-content''],
      dataset = [''scene2''], sentenceEls = 7, hasCta = True, ctaText = ''Volgende'',
      dynamicSize = Some 680, wired = True, currentPage = 1, totalPages = 2\<rparr>"

definition betaLastPage :: bubble where
  "betaLastPage = betaPageOne\<lparr>ctaText := ''Pop!'', currentPage := 2\<rparr>"

definition inFlight :: state where
  "inFlight = runUntil 20 (runSceneTransition ''2-3'' scene2Page)"




section \<open>Termination of the event loop\<close>

lemma earliest_mem: "earliest tms = Some tm \<Longrightarrow> tm \<in> set tms"
  by (induction tms arbitrary: tm) (auto split: option.splits if_splits)

lemma timers_newAudio [simp]: "timers (snd (newAudio p s)) = timers s"
  by (simp add: newAudio_def)

lemma timers_devPlay [simp]: "timers (devPlay a s) = timers s"
  by (simp add: devPlay_def)

lemma timers_devPause [simp]: "timers (devPause a s) = timers s"
  by (simp add: devPause_def)

lemma timers_stopTrack [simp]: "timers (stopTrack t s) = timers s"
  by (simp add: stopTrack_def split: option.splits)

lemma timers_playTrack [simp]: "timers (playTrack t s) = timers s"
  by (simp add: playTrack_def newAudio_def devPlay_def Let_def split: option.splits prod.splits)

lemma timers_fold_stopTrack [simp]: "timers (fold stopTrack ts s) = timers s"
  by (induction ts arbitrary: s) simp_all

lemma timers_fold_playTrack [simp]: "timers (fold playTrack ts s) = timers s"
  by (induction ts arbitrary: s) simp_all

lemma timers_retargetLayer [simp]: "timers (retargetLayer l s) = timers s"
  by (simp add: retargetLayer_def split: option.splits)

lemma timers_startLayer [simp]: "timers (startLayer l s) = timers s"
  by (simp add: startLayer_def newAudio_def devPlay_def Let_def split: prod.splits)

lemma timers_fold_retargetLayer [simp]: "timers (fold retargetLayer ls s) = timers s"
  by (induction ls arbitrary: s) simp_all

lemma timers_fold_startLayer [simp]: "timers (fold startLayer ls s) = timers s"
  by (induction ls arbitrary: s) simp_all

lemma timers_playAmbient [simp]: "timers (playAmbient n s) = timers s"
  by (simp add: playAmbient_def split: option.splits)

lemma timers_unmuteLayer [simp]: "timers (unmuteLayer e s) = timers s"
  by (simp add: unmuteLayer_def Let_def)

lemma timers_fold_unmuteLayer [simp]: "timers (fold unmuteLayer es s) = timers s"
  by (induction es arbitrary: s) simp_all

lemma timers_unmuteAudio [simp]: "timers (unmuteAudio s) = timers s"
  by (simp add: unmuteAudio_def)

lemma timers_stopTransition [simp]: "timers (stopTransition s) = timers s"
  by (simp add: stopTransition_def split: option.splits)

lemma timers_playTransition [simp]: "timers (playTransition f l v s) = timers s"
  by (simp add: playTransition_def newAudio_def devPlay_def Let_def split: prod.splits)

lemma timers_playPopSound [simp]: "timers (playPopSound s) = timers s"
  by (simp add: playPopSound_def newAudio_def devPlay_def Let_def split: prod.splits)

lemma timers_playCrowSound [simp]: "timers (playCrowSound s) = timers s"
  by (simp add: playCrowSound_def newAudio_def devPlay_def Let_def split: prod.splits)

lemma timers_pauseAmbient [simp]: "timers (pauseAmbient s) = timers s"
  by (simp add: pauseAmbient_def)

lemma timers_startBird [simp]: "timers (startBird l s) = timers s"
  by (simp add: startBird_def newAudio_def devPlay_def Let_def split: prod.splits)

lemma timers_fold_startBird [simp]: "timers (fold startBird ls s) = timers s"
  by (induction ls arbitrary: s) simp_all

lemma timers_updBubble [simp]: "timers (updBubble i f s) = timers s"
  by (simp add: updBubble_def)

lemma timers_removeAll_data [simp]: "timers (removeAll_data k s) = timers s"
  by (simp add: removeAll_data_def)

lemma timers_spawnScene2 [simp]: "timers (spawnScene2 s) = timers s"
  by (simp add: spawnScene2_def Let_def)

lemma timers_record_event [simp]: "timers (record_event e s) = timers s"
  by (simp add: record_event_def)

lemma timers_onComplete [simp]: "timers (onComplete k s) = timers s"
  by (simp add: onComplete_def Let_def)

lemma pendingWork_timers: "timers s' = timers s \<Longrightarrow> pendingWork s' = pendingWork s"
  by (simp add: pendingWork_def)

lemma pendingWork_setTimeout [simp]: "pendingWork (setTimeout c d s) = pendingWork s + work c"
  by (simp add: pendingWork_def setTimeout_def)

lemma pendingWork_setInterval [simp]: "pendingWork (setInterval c d s) = pendingWork s + work c"
  by (simp add: pendingWork_def setInterval_def)

lemma pendingWork_rearm [simp]: "pendingWork (rearm tm c s) = pendingWork s + work c"
  by (simp add: pendingWork_def rearm_def)


lemma steps_pos [simp]: "0 < steps" "Suc 0 \<le> steps"
  by (simp_all add: steps_def)

lemma pendingWork_upd [simp]:
  "pendingWork (s\<lparr>ambientLayers := al\<rparr>) = pendingWork s"
  "pendingWork (s\<lparr>birdLayers := bl\<rparr>) = pendingWork s"
  "pendingWork (s\<lparr>sceneClasses := sc\<rparr>) = pendingWork s"
  "pendingWork (s\<lparr>crowSoundTimeout := ct\<rparr>) = pendingWork s"
  by (simp_all add: pendingWork_def)

lemma pendingWork_same [simp]:
  "pendingWork (playAmbient n s) = pendingWork s"
  "pendingWork (unmuteAudio s) = pendingWork s"
  "pendingWork (stopTransition s) = pendingWork s"
  "pendingWork (playTransition f l v s) = pendingWork s"
  "pendingWork (playCrowSound s) = pendingWork s"
  "pendingWork (pauseAmbient s) = pendingWork s"
  "pendingWork (fold startBird ls s) = pendingWork s"
  "pendingWork (updBubble i g s) = pendingWork s"
  "pendingWork (removeAll_data k s) = pendingWork s"
  "pendingWork (spawnScene2 s) = pendingWork s"
  "pendingWork (record_event e s) = pendingWork s"
  "pendingWork (onComplete k s) = pendingWork s"
  "pendingWork (fold playTrack ts s) = pendingWork s"
  by (simp_all add: pendingWork_def)

lemma pendingWork_remove1:
  "tm \<in> set (timers s) \<Longrightarrow>
   pendingWork (s\<lparr>timers := remove1 tm (timers s), now := x\<rparr>) + work (cb tm) = pendingWork s"
  by (simp add: pendingWork_def sum_list_map_remove1)

lemma pendingWork_fadeAmbientToLevel:
  "pendingWork (fadeAmbientToLevel l d s) \<le> pendingWork s + steps"
  by (simp add: fadeAmbientToLevel_def steps_def)

lemma pendingWork_fadeOutAmbient:
  "pendingWork (fadeOutAmbient d s) \<le> pendingWork s + steps"
  by (simp add: fadeOutAmbient_def steps_def)

lemma pendingWork_fadeInAmbient:
  "pendingWork (fadeInAmbient d s) \<le> pendingWork s + steps"
  by (simp add: fadeInAmbient_def Let_def steps_def)

lemma pendingWork_fadeInBirdAmbient:
  "pendingWork (fadeInBirdAmbient d s) \<le> pendingWork s + steps"
  by (simp add: fadeInBirdAmbient_def Let_def steps_def)

lemma pendingWork_switchToScene9Ambient:
  "pendingWork (switchToScene9Ambient fo fi s) \<le> pendingWork s + 2 * steps"
  using pendingWork_fadeInBirdAmbient [of fi "fold startBird birds s"]
  by (simp add: switchToScene9Ambient_def)

lemma pendingWork_onStart:
  "pendingWork (onStart k s) \<le> pendingWork s + 2 * steps"
proof -
  let ?x = "(record_event (OnStart k) s)\<lparr>sceneClasses :=
              classRemove (''scene-'' @ fromScene k)
                (classAdd (''transitioning-'' @ k) (sceneClasses (record_event (OnStart k) s)))\<rparr>"
  have eq: "onStart k s = (if k = ''8-9'' then switchToScene9Ambient 1500 1500 ?x else ?x)"
    by (simp add: onStart_def Let_def)
  have px: "pendingWork ?x = pendingWork s"
    by simp
  show ?thesis
  proof (cases "k = ''8-9''")
    case True
    have "onStart k s = switchToScene9Ambient 1500 1500 ?x"
      unfolding eq using True by (rule if_P)
    then show ?thesis
      using pendingWork_switchToScene9Ambient [of 1500 1500 ?x] px by simp
  next
    case False
    have "onStart k s = ?x"
      unfolding eq using False by (rule if_not_P)
    then show ?thesis
      using px by simp
  qed
qed

lemma pendingWork_runSceneTransition:
  "pendingWork (runSceneTransition k s) \<le> pendingWork s + (4 * steps + 2)"
proof -
  have a: "pendingWork (onStart k x) \<le> pendingWork x + 2 * steps" for x
    by (rule pendingWork_onStart)
  have b: "pendingWork (fadeAmbientToLevel l d x) \<le> pendingWork x + steps" for l d x
    by (rule pendingWork_fadeAmbientToLevel)
  show ?thesis
    using a [of "fadeAmbientToLevel (1/2) (audioFadeOut (the (TRANSITIONS k)))
                   (playTransition ''Steps.wav'' True (3/5) s)"]
      a [of "playTransition ''Swoosh.wav'' False (7/10) s"] a [of s]
      b [of "1/2" "audioFadeOut (the (TRANSITIONS k))" "playTransition ''Steps.wav'' True (3/5) s"]
    by (auto simp add: runSceneTransition_def Let_def split: option.splits)
qed

lemma pendingWork_openTransitionScene:
  "pendingWork (openTransitionScene n dk k s) \<le> pendingWork s + (4 * steps + 3)"
  using pendingWork_runSceneTransition [of k "removeAll_data dk (record_event (OpenScene n) s)"]
  by (simp add: openTransitionScene_def Let_def)

lemma pendingWork_checkRemaining:
  "pendingWork (checkRemaining n s) \<le> pendingWork s + (4 * steps + 3)"
  using pendingWork_openTransitionScene [of 5 "''scene4''" "''4-5''" s]
    pendingWork_openTransitionScene [of 7 "''scene6''" "''6-7''" s]
    pendingWork_openTransitionScene [of 9 "''scene8''" "''8-9''" s]
  by (simp add: checkRemaining_def openScene5_def openScene7_def openScene9_def)

lemma pendingWork_popRemove:
  "pendingWork (popRemove i n s) \<le> pendingWork s + (4 * steps + 4)"
  using pendingWork_openTransitionScene
    [of 3 "''scene2''" "''2-3''" "updBubble i (\<lambda>b. b\<lparr>attached := False\<rparr>) s"]
  by (simp add: popRemove_def openScene3_def Let_def)

lemma pendingWork_tick:
  "pendingWork (fadeToLevelTick tm sv lvl k s) < pendingWork s + max 1 (steps - k)"
  "pendingWork (fadeOutTick tm sv k s) < pendingWork s + max 1 (steps - k)"
  "pendingWork (fadeInTick tm sv k s) < pendingWork s + max 1 (steps - k)"
  "pendingWork (birdFadeInTick tm k s) < pendingWork s + max 1 (steps - k)"
  "pendingWork (scene9FadeOutTick tm sv fi k s) < pendingWork s + (max 1 (steps - k) + steps)"
  by (auto simp add: fadeToLevelTick_def fadeOutTick_def fadeInTick_def birdFadeInTick_def
      scene9FadeOutTick_def Let_def)

lemma pendingWork_fire: "pendingWork (fire tm s) < pendingWork s + work (cb tm)"
proof (cases "cb tm")
  case (AmbientRetarget k)
  then show ?thesis
    using pendingWork_fadeInAmbient [of 800 "playAmbient (targetScene k) s"]
    by (simp add: fire_def ambientRetarget_def Let_def)
next
  case (TransitionComplete k)
  then show ?thesis by (simp add: fire_def transitionComplete_def Let_def)
next
  case (PopRemove i n)
  then show ?thesis using pendingWork_popRemove [of i n s] by (simp add: fire_def)
next
  case (CheckRemaining n)
  then show ?thesis using pendingWork_checkRemaining [of n s] by (simp add: fire_def)
next
  case (Scene2Fallback c)
  then show ?thesis
    by (simp add: fire_def scene2Fallback_def popFinished_def split: option.splits)
next
  case Scene2Ambient
  then show ?thesis by (simp add: fire_def scene2Ambient_def)
next
  case FadeInLater
  then show ?thesis using pendingWork_fadeInAmbient [of 600 s] by (simp add: fire_def)
next
  case (RevealContent i)
  then show ?thesis by (simp add: fire_def revealContent_def split: option.splits)
qed (use pendingWork_tick in \<open>simp_all add: fire_def phase3_def\<close>)

lemma pendingWork_dispatch:
  assumes "tm \<in> set (timers s)"
  shows "pendingWork (dispatch tm s) < pendingWork s"
  using pendingWork_fire [of tm "s\<lparr>timers := remove1 tm (timers s), now := max (now s) (due tm)\<rparr>"]
    pendingWork_remove1 [OF assms, of "max (now s) (due tm)"]
  by (simp add: dispatch_def)

termination runUntil
  by (relation "measure (\<lambda>(t, s). pendingWork s)")
    (auto dest: earliest_mem intro: pendingWork_dispatch)

declare runUntil.simps [simp del]

section \<open>Running the event loop under an invariant\<close>

lemma earliest_Nil: "earliest tms = None \<longleftrightarrow> tms = []"
  by (induction tms) (auto split: option.splits)

lemma earliest_le: "earliest tms = Some tm \<Longrightarrow> u \<in> set tms \<Longrightarrow> due tm \<le> due u"
  by (induction tms arbitrary: tm) (auto split: option.splits if_splits simp: earliest_Nil)

lemma runUntil_invariant:
  assumes "I s"
    and "\<And>x tm. I x \<Longrightarrow> earliest (timers x) = Some tm \<Longrightarrow> due tm \<le> T \<Longrightarrow> I (dispatch tm x)"
  shows "\<exists>s'. I s' \<and> (\<forall>tm\<in>set (timers s'). T < due tm)
            \<and> runUntil T s = s'\<lparr>now := max (now s') T\<rparr>"
  using assms
proof (induction T s rule: runUntil.induct)
  case (1 t s)
  show ?case
  proof (cases "earliest (timers s)")
    case None
    then have "timers s = []" by (simp add: earliest_Nil)
    with None "1.prems"(1) show ?thesis
      by (subst runUntil.simps) (auto intro!: exI [of _ s])
  next
    case (Some tm)
    show ?thesis
    proof (cases "due tm \<le> t")
      case True
      have "I (dispatch tm s)"
        using "1.prems" Some True by blast
      then have "\<exists>s'. I s' \<and> (\<forall>tm\<in>set (timers s'). t < due tm)
            \<and> runUntil t (dispatch tm s) = s'\<lparr>now := max (now s') t\<rparr>"
        using "1.IH" [OF Some True] "1.prems"(2) by blast
      moreover have "runUntil t s = runUntil t (dispatch tm s)"
        using Some True by (subst runUntil.simps) simp
      ultimately show ?thesis by simp
    next
      case False
      then have "\<forall>u\<in>set (timers s). t < due u"
        using earliest_le [OF Some] by fastforce
      with Some False "1.prems"(1) show ?thesis
        by (subst runUntil.simps) (auto intro!: exI [of _ s])
    qed
  qed
qed

section \<open>Auxiliary lemmas\<close>

lemma map_of_mapUpd:
  "map_of (mapUpd k f es) k' = (if k' = k then map_option f (map_of es k) else map_of es k')"
  by (induction es) auto

lemma keys_mapUpd [simp]: "map fst (mapUpd k f es) = map fst es"
  by (induction es) auto

lemma retargetLayer_fields [simp]:
  "nextAudio (retargetLayer l s) = nextAudio s"
  "device (retargetLayer l s) = device s"
  "map fst (ambientLayers (retargetLayer l s)) = map fst (ambientLayers s)"
  by (simp_all add: retargetLayer_def split: option.splits)

lemma retargetLayer_get:
  "map_of (ambientLayers (retargetLayer l s)) lid =
     (if lid = fst l then map_option (\<lambda>a. a\<lparr>volume := snd (snd l)\<rparr>) (map_of (ambientLayers s) lid)
      else map_of (ambientLayers s) lid)"
  by (auto simp add: retargetLayer_def map_of_mapUpd split: option.splits)

lemma fold_retargetLayer_fields [simp]:
  "nextAudio (fold retargetLayer ls s) = nextAudio s"
  "device (fold retargetLayer ls s) = device s"
  "map fst (ambientLayers (fold retargetLayer ls s)) = map fst (ambientLayers s)"
  by (induction ls arbitrary: s) simp_all

lemma fold_retargetLayer_get:
  assumes "distinct (map fst ls)"
  shows "map_of (ambientLayers (fold retargetLayer ls s)) lid =
           (case map_of ls lid of
              None \<Rightarrow> map_of (ambientLayers s) lid
            | Some fv \<Rightarrow> map_option (\<lambda>a. a\<lparr>volume := snd fv\<rparr>) (map_of (ambientLayers s) lid))"
  using assms
proof (induction ls arbitrary: s)
  case Nil
  then show ?case by simp
next
  case (Cons l ls)
  have "map_of ls (fst l) = None"
    using Cons.prems by (simp add: map_of_eq_None_iff)
  then show ?case
    using Cons.prems Cons.IH [of "retargetLayer l s"]
    by (cases l) (auto simp add: retargetLayer_get split: option.splits)
qed

lemma sceneConfig_distinct: "sceneConfig n = Some config \<Longrightarrow> distinct (map fst config)"
  by (auto simp add: sceneConfig_def earlySceneAudio_def lateSceneAudio_def split: if_splits)

lemma find_map_bid:
  assumes "\<And>b. bid (f b) = bid b"
  shows "find (\<lambda>b. bid b = i) (map (\<lambda>b. if bid b = i then f b else b) bs)
         = map_option f (find (\<lambda>b. bid b = i) bs)"
  using assms by (induction bs) auto

lemma getBubble_updBubble:
  assumes "\<And>b. bid (f b) = bid b"
  shows "getBubble i (updBubble i f s) = map_option f (getBubble i s)"
  using find_map_bid [of f i "bubbles s"] assms by (simp add: getBubble_def updBubble_def)

lemma getBubble_same: "bubbles s' = bubbles s \<Longrightarrow> getBubble i s' = getBubble i s"
  by (simp add: getBubble_def)

lemma bubbles_setTimeout [simp]: "bubbles (setTimeout c d s) = bubbles s"
  by (simp add: setTimeout_def)

lemma bubbles_cancelCrowSound [simp]: "bubbles (cancelCrowSound s) = bubbles s"
  by (simp add: cancelCrowSound_def clearTimeout_def split: option.splits)

lemma stopTrack_fields [simp]:
  "bubbles (stopTrack t s) = bubbles s"
  "trace (stopTrack t s) = trace s"
  "audioEnabled (stopTrack t s) = audioEnabled s"
  "oneShot (stopTrack t s) = (oneShot s)(t := None)"
  "device (stopTrack t s) =
     device s @ (case oneShot s t of None \<Rightarrow> [] | Some a \<Rightarrow> [Pause (ident a) (src a)])"
  by (auto simp add: stopTrack_def devPause_def split: option.splits)

lemma playTrack_fields [simp]:
  "bubbles (playTrack t s) = bubbles s"
  "trace (playTrack t s) = trace s"
  "audioEnabled (playTrack t s) = audioEnabled s"
  by (simp_all add: playTrack_def newAudio_def devPlay_def devPause_def Let_def
      split: option.splits)



lemma allTracks_all: "t \<in> set allTracks"
  by (cases t) (simp_all add: allTracks_def)

lemma oneShot_fold_stopTrack:
  "oneShot (fold stopTrack ts s) t = (if t \<in> set ts then None else oneShot s t)"
  by (induction ts arbitrary: s) auto

lemma device_fold_stopTrack_mono: "set (device s) \<subseteq> set (device (fold stopTrack ts s))"
proof (induction ts arbitrary: s)
  case Nil
  then show ?case by simp
next
  case (Cons x xs)
  have "set (device s) \<subseteq> set (device (stopTrack x s))"
    by simp
  also have "\<dots> \<subseteq> set (device (fold stopTrack xs (stopTrack x s)))"
    by (rule Cons.IH)
  finally show ?case by simp
qed

lemma device_fold_stopTrack_pause:
  assumes "t \<in> set ts" and "oneShot s t = Some a"
  shows "Pause (ident a) (src a) \<in> set (device (fold stopTrack ts s))"
  using assms
proof (induction ts arbitrary: s)
  case Nil
  then show ?case by simp
next
  case (Cons x xs)
  show ?case
  proof (cases "t = x")
    case True
    then have "Pause (ident a) (src a) \<in> set (device (stopTrack x s))"
      using Cons.prems(2) by simp
    then show ?thesis
      using device_fold_stopTrack_mono [of "stopTrack x s" xs] by auto
  next
    case False
    then have "t \<in> set xs" and "oneShot (stopTrack x s) t = Some a"
      using Cons.prems by simp_all
    then show ?thesis
      using Cons.IH [of "stopTrack x s"] by simp
  qed
qed

lemma playPopSound_fields [simp]:
  "oneShot (playPopSound s) = oneShot s"
  "bubbles (playPopSound s) = bubbles s"
  "trace (playPopSound s) = trace s"
  "device (playPopSound s) =
     device s @ (if audioEnabled s then [Play (nextAudio s) ''assets/audio/BubblePopRev.wav''] else [])"
  by (simp_all add: playPopSound_def newAudio_def devPlay_def)

lemma popScene_fields [simp]:
  "oneShot (popScene i n s) = oneShot s"
  "device (popScene i n s) = device s"
  by (simp_all add: popScene_def Let_def setTimeout_def updBubble_def)

lemma playTransition_oneShot [simp]: "oneShot (playTransition f l v s) = oneShot s"
  by (simp add: playTransition_def stopTransition_def newAudio_def devPlay_def devPause_def
      Let_def split: option.splits)

lemma playTransition_device_mono: "set (device s) \<subseteq> set (device (playTransition f l v s))"
  by (auto simp add: playTransition_def stopTransition_def newAudio_def devPlay_def devPause_def
      Let_def split: option.splits)

lemma fadeOutAmbient_fields [simp]:
  "oneShot (fadeOutAmbient d s) = oneShot s"
  "device (fadeOutAmbient d s) = device s"
  by (simp_all add: fadeOutAmbient_def setInterval_def)

lemma openScene2_oneShot [simp]: "oneShot (openScene2 i s) = oneShot s"
  by (simp add: openScene2_def Let_def setTimeout_def updBubble_def split: option.splits)

lemma openScene2_device_mono: "set (device s) \<subseteq> set (device (openScene2 i s))"
  using playTransition_device_mono [of s "''Swoosh.wav''" False "7/10"]
  by (simp add: openScene2_def Let_def setTimeout_def updBubble_def split: option.splits)

lemma now_simps [simp]:
  "now (playTransition f l v s) = now s"
  "now (fold startBird ls s) = now s"
  "now (record_event e s) = now s"
  "now (setTimeout c d s) = now s"
  "now (setInterval c d s) = now s"
proof -
  show "now (playTransition f l v s) = now s"
    by (simp add: playTransition_def stopTransition_def newAudio_def devPlay_def devPause_def
        Let_def split: option.splits)
  show "now (fold startBird ls s) = now s"
    by (induction ls arbitrary: s) (simp_all add: startBird_def newAudio_def devPlay_def Let_def)
qed (simp_all add: record_event_def setTimeout_def setInterval_def)

lemma trace_simps [simp]:
  "trace (playTransition f l v s) = trace s"
  "trace (fold startBird ls s) = trace s"
  "trace (setTimeout c d s) = trace s"
  "trace (setInterval c d s) = trace s"
proof -
  show "trace (playTransition f l v s) = trace s"
    by (simp add: playTransition_def stopTransition_def newAudio_def devPlay_def devPause_def
        Let_def split: option.splits)
  show "trace (fold startBird ls s) = trace s"
    by (induction ls arbitrary: s) (simp_all add: startBird_def newAudio_def devPlay_def Let_def)
qed (simp_all add: setTimeout_def setInterval_def)

lemma ambientLayers_playTransition [simp]:
  "ambientLayers (playTransition f l v s) = ambientLayers s"
  by (simp add: playTransition_def stopTransition_def newAudio_def devPlay_def devPause_def
      Let_def split: option.splits)

lemma fadeAmbientToLevel_fields [simp]:
  "now (fadeAmbientToLevel l d s) = now s"
  "trace (fadeAmbientToLevel l d s) = trace s"
  by (simp_all add: fadeAmbientToLevel_def)

lemma timers_fadeAmbientToLevel:
  "timers (fadeAmbientToLevel l d s) =
     timers s @
       (if ambientLayers s = [] then []
        else [\<lparr>tid = nextTimer s, due = now s + d / of_nat steps, period = Some (d / of_nat steps),
               cb = FadeToLevelTick (captureVolumes (ambientLayers s)) l 0\<rparr>])"
  by (simp add: fadeAmbientToLevel_def setInterval_def)

lemma switchToScene9Ambient_fields [simp]:
  "now (switchToScene9Ambient fo fi s) = now s"
  "trace (switchToScene9Ambient fo fi s) = trace s"
  by (simp_all add: switchToScene9Ambient_def fadeInBirdAmbient_def Let_def)

lemma timers_switchToScene9Ambient:
  "\<exists>added. timers (switchToScene9Ambient fo fi s) = timers s @ added"
  by (simp add: switchToScene9Ambient_def fadeInBirdAmbient_def Let_def setInterval_def)

lemma onStart_fields [simp]:
  "now (onStart k s) = now s"
  "trace (onStart k s) = trace s @ [(now s, OnStart k)]"
  by (simp_all add: onStart_def Let_def record_event_def)

lemma timers_onStart: "\<exists>added. timers (onStart k s) = timers s @ added"
proof (cases "k = ''8-9''")
  case True
  obtain added where
    "timers (switchToScene9Ambient 1500 1500
       ((record_event (OnStart k) s)\<lparr>sceneClasses :=
          classRemove (''scene-'' @ fromScene k)
            (classAdd (''transitioning-'' @ k) (sceneClasses (record_event (OnStart k) s)))\<rparr>))
     = timers s @ added"
    using timers_switchToScene9Ambient
      [of 1500 1500 "(record_event (OnStart k) s)\<lparr>sceneClasses :=
          classRemove (''scene-'' @ fromScene k)
            (classAdd (''transitioning-'' @ k) (sceneClasses (record_event (OnStart k) s)))\<rparr>"]
    by auto
  then show ?thesis
    unfolding onStart_def Let_def if_P [OF True] by blast
next
  case False
  then show ?thesis by (simp add: onStart_def Let_def)
qed


lemma timers_fadeInAmbient:
  "timers (fadeInAmbient d s) =
     timers s @
       (if ambientLayers s = [] then []
        else [\<lparr>tid = nextTimer s, due = now s + d / of_nat steps, period = Some (d / of_nat steps),
               cb = FadeInTick (captureVolumes (ambientLayers s)) 0\<rparr>])"
  by (simp add: fadeInAmbient_def setInterval_def Let_def)

lemma forEach_forEach [simp]: "forEach f (forEach g es) = forEach (\<lambda>k v. f k (g k v)) es"
  by (simp add: forEach_def comp_def)

lemma scaleFrom_scaleFrom [simp]:
  "scaleFrom vols f lid (scaleFrom vols g lid a) = scaleFrom vols f lid a"
  by (simp add: scaleFrom_def split: option.splits)

lemma ambientLayers_rearm [simp]: "ambientLayers (rearm tm c s) = ambientLayers s"
  by (simp add: rearm_def)









subsection \<open>Trace entries written by timers\<close>

text \<open>
  Audio callbacks write no trace entry and arm only audio callbacks; a quiet callback
  writes no \<^verbatim>\<open>onStart\<close> and no \<^verbatim>\<open>openScene\<close> entry.  \<open>dispatch_quiet\<close> and \<open>quiet_run\<close> lift this
  to the event loop.
\<close>

lemma trace_tick [simp]:
  "trace (rearm tm c s) = trace s"
  "trace (pauseAmbient s) = trace s"
  "trace (fadeInAmbient d s) = trace s"
  by (simp_all add: rearm_def pauseAmbient_def fadeInAmbient_def Let_def)

lemma trace_playAmbient [simp]: "trace (playAmbient n s) = trace s"
proof -
  have a: "trace (fold retargetLayer ls x) = trace x" for ls x
    by (induction ls arbitrary: x) (simp_all add: retargetLayer_def split: option.splits)
  have b: "trace (fold startLayer ls x) = trace x" for ls x
    by (induction ls arbitrary: x) (simp_all add: startLayer_def newAudio_def devPlay_def Let_def)
  show ?thesis
    by (simp add: playAmbient_def a b split: option.splits)
qed

lemma now_playAmbient [simp]: "now (playAmbient n s) = now s"
proof -
  have a: "now (fold retargetLayer ls x) = now x" for ls x
    by (induction ls arbitrary: x) (simp_all add: retargetLayer_def split: option.splits)
  have b: "now (fold startLayer ls x) = now x" for ls x
    by (induction ls arbitrary: x) (simp_all add: startLayer_def newAudio_def devPlay_def Let_def)
  show ?thesis
    by (simp add: playAmbient_def a b split: option.splits)
qed

lemma trace_stopTransition [simp]:
  "trace (stopTransition s) = trace s" "now (stopTransition s) = now s"
  by (simp_all add: stopTransition_def devPause_def split: option.splits)

lemma audioOnly_fire:
  assumes "audioOnly (cb tm)"
  shows "trace (fire tm s) = trace s
       \<and> (\<exists>new. timers (fire tm s) = timers s @ new \<and> (\<forall>u\<in>set new. audioOnly (cb u)))"
proof (cases "cb tm")
  case (FadeToLevelTick sv lvl k)
  then show ?thesis
    by (simp add: fire_def fadeToLevelTick_def Let_def rearm_def)
next
  case (FadeOutTick sv k)
  then show ?thesis
    by (simp add: fire_def fadeOutTick_def Let_def rearm_def)
next
  case (FadeInTick tv k)
  then show ?thesis
    by (simp add: fire_def fadeInTick_def Let_def rearm_def)
next
  case (Scene9FadeOutTick sv fi k)
  then show ?thesis
    by (simp add: fire_def scene9FadeOutTick_def Let_def rearm_def setInterval_def)
next
  case (BirdFadeInTick k)
  then show ?thesis
    by (simp add: fire_def birdFadeInTick_def Let_def rearm_def)
next
  case (AmbientRetarget k)
  then show ?thesis
    by (simp add: fire_def ambientRetarget_def Let_def timers_fadeInAmbient)
qed (use assms in simp_all)

lemma quiet_fire:
  assumes "quiet (cb tm)"
  shows "starts (trace (fire tm s)) = starts (trace s)
       \<and> completions (trace (fire tm s)) =
           completions (trace s) @
             (case cb tm of TransitionComplete k \<Rightarrow> [(now s, OnComplete k)] | _ \<Rightarrow> [])
       \<and> (\<exists>new. timers (fire tm s) = timers s @ new \<and> (\<forall>u\<in>set new. audioOnly (cb u)))"
proof (cases "audioOnly (cb tm)")
  case True
  then show ?thesis
    using audioOnly_fire [OF True, of s] by (cases "cb tm") simp_all
next
  case False
  then consider k where "cb tm = TransitionComplete k" | n where "cb tm = PopulateScene n"
    using assms by (cases "cb tm") simp_all
  then show ?thesis
  proof cases
    case 1
    then show ?thesis
      by (simp add: fire_def transitionComplete_def onComplete_def Let_def record_event_def
          starts_def completions_def)
  next
    case 2
    then show ?thesis
      by (simp add: fire_def)
  qed
qed

lemma audioOnly_quiet: "audioOnly c \<Longrightarrow> quiet c \<and> \<not> isCompletion c"
  by (cases c) simp_all

lemma filter_remove1_other: "\<not> P x \<Longrightarrow> filter P (remove1 x xs) = filter P xs"
  by (induction xs) auto

lemma length_filter_remove1:
  "x \<in> set xs \<Longrightarrow> P x \<Longrightarrow> length (filter P (remove1 x xs)) = length (filter P xs) - 1"
  by (simp add: filter_remove1 length_remove1)

lemma steps_transition:
  assumes "TRANSITIONS k = Some config" and "duration config = 5500"
  shows "usesSteps k" and "k \<noteq> ''8-9''"
    and "config = \<lparr>duration = 5500, audioFadeOut = 500, audioFadeIn = 300\<rparr>"
  using assms by (auto simp add: TRANSITIONS_def usesSteps_def split: if_splits)

lemma runSceneTransition_steps:
  assumes "sceneEl s" and "TRANSITIONS k = Some config" and "duration config = 5500"
  shows "trace (runSceneTransition k s) = trace s @ [(now s, OnStart k)]"
    and "now (runSceneTransition k s) = now s"
    and "\<exists>fade i j. timers (runSceneTransition k s) =
           timers s @ fade
             @ [\<lparr>tid = i, due = now s + 300, period = None, cb = AmbientRetarget k\<rparr>,
                \<lparr>tid = j, due = now s + 5500, period = None, cb = TransitionComplete k\<rparr>]
           \<and> (\<forall>u\<in>set fade. audioOnly (cb u))"
proof -
  note k = steps_transition [OF assms(2,3)]
  have eq: "runSceneTransition k s =
      setTimeout (TransitionComplete k) 5500
        (setTimeout (AmbientRetarget k) 300
          (onStart k (fadeAmbientToLevel (1/2) 500 (playTransition ''Steps.wav'' True (3/5) s))))"
    using assms(1,2) k by (simp add: runSceneTransition_def Let_def)
  show "trace (runSceneTransition k s) = trace s @ [(now s, OnStart k)]"
    unfolding eq by simp
  show "now (runSceneTransition k s) = now s"
    unfolding eq by simp
  have os: "timers (onStart k x) = timers x" for x
    using k(2) by (simp add: onStart_def Let_def)
  show "\<exists>fade i j. timers (runSceneTransition k s) =
           timers s @ fade
             @ [\<lparr>tid = i, due = now s + 300, period = None, cb = AmbientRetarget k\<rparr>,
                \<lparr>tid = j, due = now s + 5500, period = None, cb = TransitionComplete k\<rparr>]
           \<and> (\<forall>u\<in>set fade. audioOnly (cb u))"
    unfolding eq
    by (simp add: setTimeout_def os timers_fadeAmbientToLevel)
qed

lemma dispatch_quiet:
  assumes "tm \<in> set (timers x)" and "quiet (cb tm)"
  shows "starts (trace (dispatch tm x)) = starts (trace x)"
    and "completions (trace (dispatch tm x)) =
           completions (trace x) @
             (case cb tm of TransitionComplete k \<Rightarrow> [(max (now x) (due tm), OnComplete k)]
              | _ \<Rightarrow> [])"
    and "\<exists>new. timers (dispatch tm x) = remove1 tm (timers x) @ new
           \<and> (\<forall>u\<in>set new. audioOnly (cb u))"
    and "now (dispatch tm x) = max (now x) (due tm)"
proof -
  define y where "y = x\<lparr>timers := remove1 tm (timers x), now := max (now x) (due tm)\<rparr>"
  have d: "dispatch tm x = fire tm y"
    by (simp add: dispatch_def y_def)
  have y: "trace y = trace x" "now y = max (now x) (due tm)" "timers y = remove1 tm (timers x)"
    by (simp_all add: y_def)
  note q = quiet_fire [OF assms(2), of y]
  show "starts (trace (dispatch tm x)) = starts (trace x)"
    using q y by (simp add: d)
  show "completions (trace (dispatch tm x)) =
           completions (trace x) @
             (case cb tm of TransitionComplete k \<Rightarrow> [(max (now x) (due tm), OnComplete k)]
              | _ \<Rightarrow> [])"
    using q y by (simp add: d split: callback.splits)
  show "\<exists>new. timers (dispatch tm x) = remove1 tm (timers x) @ new
           \<and> (\<forall>u\<in>set new. audioOnly (cb u))"
    using q y by (simp add: d)
  show "now (dispatch tm x) = max (now x) (due tm)"
  proof (cases "cb tm")
    case (AmbientRetarget k)
    then show ?thesis
      by (simp add: d fire_def ambientRetarget_def Let_def fadeInAmbient_def y)
  next
    case (TransitionComplete k)
    then show ?thesis
      by (simp add: d fire_def transitionComplete_def onComplete_def Let_def y)
  next
    case (Scene9FadeOutTick sv fi k)
    then show ?thesis
      by (simp add: d fire_def scene9FadeOutTick_def Let_def rearm_def pauseAmbient_def y)
  qed (use assms(2) in \<open>simp_all add: d fire_def fadeToLevelTick_def fadeOutTick_def
        fadeInTick_def birdFadeInTick_def Let_def rearm_def pauseAmbient_def y\<close>)
qed


subsection \<open>Popping a bubble of scene 2\<close>

text \<open>
  \<open>pop_scene2_run\<close> runs one pop to the end of its 300 ms removal timer: while another
  bubble of scene 2 is attached, nothing is written to the trace and the bubble is gone;
  when none is left, \<^verbatim>\<open>openScene3\<close> runs at the removal time.
\<close>

lemma fold_stopTrack_fields [simp]:
  "trace (fold stopTrack ts s) = trace s"
  "bubbles (fold stopTrack ts s) = bubbles s"
  "now (fold stopTrack ts s) = now s"
  "sceneEl (fold stopTrack ts s) = sceneEl s"
  "nextTimer (fold stopTrack ts s) = nextTimer s"
  "sceneClasses (fold stopTrack ts s) = sceneClasses s"
proof -
  have one: "trace (stopTrack t x) = trace x \<and> bubbles (stopTrack t x) = bubbles x
      \<and> now (stopTrack t x) = now x \<and> sceneEl (stopTrack t x) = sceneEl x
      \<and> nextTimer (stopTrack t x) = nextTimer x
      \<and> sceneClasses (stopTrack t x) = sceneClasses x" for t x
    by (simp add: stopTrack_def devPause_def split: option.splits)
  have "trace (fold stopTrack ts s) = trace s \<and> bubbles (fold stopTrack ts s) = bubbles s
      \<and> now (fold stopTrack ts s) = now s \<and> sceneEl (fold stopTrack ts s) = sceneEl s
      \<and> nextTimer (fold stopTrack ts s) = nextTimer s
      \<and> sceneClasses (fold stopTrack ts s) = sceneClasses s"
    by (induction ts arbitrary: s) (simp_all add: one)
  then show "trace (fold stopTrack ts s) = trace s" "bubbles (fold stopTrack ts s) = bubbles s"
    "now (fold stopTrack ts s) = now s" "sceneEl (fold stopTrack ts s) = sceneEl s"
    "nextTimer (fold stopTrack ts s) = nextTimer s"
    "sceneClasses (fold stopTrack ts s) = sceneClasses s"
    by simp_all
qed

lemma playPopSound_more [simp]:
  "now (playPopSound s) = now s"
  "sceneEl (playPopSound s) = sceneEl s"
  "nextTimer (playPopSound s) = nextTimer s"
  by (simp_all add: playPopSound_def newAudio_def devPlay_def)









section \<open>Properties\<close>

text \<open>
  Claim C1.  Once an ambient layer exists, a later \<open>playAmbient\<close> call creates no audio
  element and makes no playback call; the layer keeps its place in the map and is the same
  element with the same playback state, and only its volume may change, to the value
  configured for the scene (when the scene has a configuration naming the layer and the
  manager is initialised, or the scene is not 1, and enabled).
\<close>

theorem playAmbient_retargets_existing_layer:
  assumes "map_of (ambientLayers s) lid = Some a"
  shows "nextAudio (playAmbient sceneNum s) = nextAudio s
       \<and> device (playAmbient sceneNum s) = device s
       \<and> map fst (ambientLayers (playAmbient sceneNum s)) = map fst (ambientLayers s)
       \<and> map_of (ambientLayers (playAmbient sceneNum s)) lid =
           Some (a\<lparr>volume :=
                   (case configuredVolume sceneNum lid of
                      None \<Rightarrow> volume a
                    | Some v \<Rightarrow>
                        if (audioInitialized s \<or> sceneNum \<noteq> 1) \<and> audioEnabled s then v
                        else volume a)\<rparr>)"
proof (cases "sceneConfig sceneNum")
  case None
  then show ?thesis
    using assms by (simp add: playAmbient_def configuredVolume_def)
next
  case (Some config)
  have ne: "ambientLayers s \<noteq> []"
    using assms by auto
  have get: "map_of (ambientLayers (fold retargetLayer config s)) lid =
           (case map_of config lid of
              None \<Rightarrow> Some a
            | Some fv \<Rightarrow> Some (a\<lparr>volume := snd fv\<rparr>))"
    using fold_retargetLayer_get [OF sceneConfig_distinct [OF Some], of s lid] assms
    by (simp split: option.splits)
  show ?thesis
    using assms ne Some get
    by (simp add: playAmbient_def configuredVolume_def split: option.splits)
qed

theorem playAmbient_retargets_existing_layer_witness:
  "map_of (ambientLayers (init quietPage)) ''frogs'' = Some frogsLayer
   \<and> nextAudio (playAmbient 2 (init quietPage)) = nextAudio (init quietPage)
   \<and> device (playAmbient 2 (init quietPage)) = device (init quietPage)
   \<and> map_of (ambientLayers (playAmbient 2 (init quietPage))) ''frogs'' = Some frogsLayer"
proof -
  have h: "map_of (ambientLayers (init quietPage)) ''frogs'' = Some frogsLayer"
    by code_simp
  have c: "configuredVolume 2 ''frogs'' = Some (1/4)" "volume frogsLayer = 1/4"
    by code_simp+
  have "frogsLayer\<lparr>volume := 1/4\<rparr> = frogsLayer"
    by (simp add: frogsLayer_def)
  then show ?thesis
    using playAmbient_retargets_existing_layer [OF h, of 2] h c by simp
qed

text \<open>
  Claim C2, as stated, fails: in \<open>betaOnLastPage\<close> the track Copilot is bound to the alpha
  bubble only and is playing; popping the beta bubble stops it.
\<close>

theorem pop_stops_track_of_other_bubble:
  "map bid (bubbles betaOnLastPage) = [0, 1, 2]
   \<and> map boundTracks (bubbles betaOnLastPage) = [[Copilot], [Chat1, Chat2], [WatIsAI]]
   \<and> map currentPage (bubbles betaOnLastPage) = [1, 2, 0]
   \<and> map totalPages (bubbles betaOnLastPage) = [1, 2, 0]
   \<and> oneShot betaOnLastPage Copilot =
       Some \<lparr>ident = 4, src = ''assets/audio/Copilot.mp3'', volume = 1/2, loop = False,
             muted = False, paused = False, currentTime = 0\<rparr>
   \<and> oneShot (ctaClick 1 betaOnLastPage) Copilot = None
   \<and> device (ctaClick 1 betaOnLastPage) =
       device betaOnLastPage @
         [Play 7 ''assets/audio/BubblePopRev.wav'', Pause 4 ''assets/audio/Copilot.mp3'',
          Pause 6 ''assets/audio/Chat2.mp3'']"
  by code_simp

text \<open>
  Claim C2, amended.  When a bubble is popped (its button pressed on the last page), every
  one-shot track is stopped, whichever bubble it is bound to: afterwards no track field holds
  an element, and each element that was held has been paused.
\<close>

theorem ctaClick_pop_stops_every_track:
  assumes "getBubble i s = Some b" and "wired b" and "\<not> currentPage b < totalPages b"
  shows "(\<forall>t. oneShot (ctaClick i s) t = None)
       \<and> (\<forall>t a. oneShot s t = Some a \<longrightarrow> Pause (ident a) (src a) \<in> set (device (ctaClick i s)))"
proof -
  define s2 where "s2 = fold stopTrack allTracks (playPopSound s)"
  define s3 where "s3 =
    (if hasData ''scene2'' b then popScene i 2 s2
     else if hasData ''scene4'' b then popScene i 4 s2
     else if hasData ''scene6'' b then popScene i 6 s2
     else if hasData ''scene8'' b then popScene i 8 s2
     else openScene2 i s2)"
  have eq: "ctaClick i s = s3"
    using assms by (simp add: ctaClick_def Let_def s3_def s2_def)
  have o2: "oneShot s2 t = None" for t
    by (simp add: s2_def oneShot_fold_stopTrack allTracks_all)
  have d2: "Pause (ident a) (src a) \<in> set (device s2)" if "oneShot s t = Some a" for t a
    unfolding s2_def
    using device_fold_stopTrack_pause [OF allTracks_all, of "playPopSound s" t a] that by simp
  have o3: "oneShot s3 = oneShot s2"
    by (simp add: s3_def)
  have d3: "set (device s2) \<subseteq> set (device s3)"
    using openScene2_device_mono [of s2 i] by (simp add: s3_def)
  show ?thesis
    unfolding eq using o2 o3 d2 d3 by auto
qed

theorem ctaClick_pop_stops_every_track_witness:
  "getBubble 1 betaOnLastPage = Some betaLastPage
   \<and> wired betaLastPage \<and> \<not> currentPage betaLastPage < totalPages betaLastPage
   \<and> oneShot betaOnLastPage Chat2 =
        Some \<lparr>ident = 6, src = ''assets/audio/Chat2.mp3'', volume = 1/2, loop = False,
              muted = False, paused = False, currentTime = 0\<rparr>
   \<and> (\<forall>t. oneShot (ctaClick 1 betaOnLastPage) t = None)
   \<and> Pause 6 ''assets/audio/Chat2.mp3'' \<in> set (device (ctaClick 1 betaOnLastPage))"
proof -
  have h: "getBubble 1 betaOnLastPage = Some betaLastPage"
    "wired betaLastPage" "\<not> currentPage betaLastPage < totalPages betaLastPage"
    by code_simp+
  have c: "oneShot betaOnLastPage Chat2 =
        Some \<lparr>ident = 6, src = ''assets/audio/Chat2.mp3'', volume = 1/2, loop = False,
              muted = False, paused = False, currentTime = 0\<rparr>"
    by code_simp
  show ?thesis
    using ctaClick_pop_stops_every_track [OF h] h c by fastforce
qed

text \<open>
  Claim C3, as stated, fails: \<open>runSceneTransition\<close> has no guard.  At 20 ms into the
  transition 2-3 a second call runs the start effects again, starts a second ambient fade
  and schedules a second \<open>onComplete\<close>, for 5520 ms.
\<close>

theorem second_transition_not_rejected:
  "trace inFlight = [(0, OnStart ''2-3'')]
   \<and> map cb (timers inFlight) =
       [AmbientRetarget ''2-3'', TransitionComplete ''2-3'',
        FadeToLevelTick [(''frogs'', 1/4), (''night'', 1/4), (''insects'', 1/2)] (1/2) 2]
   \<and> trace (runSceneTransition ''2-3'' inFlight) = [(0, OnStart ''2-3''), (20, OnStart ''2-3'')]
   \<and> map cb (timers (runSceneTransition ''2-3'' inFlight)) =
       [AmbientRetarget ''2-3'', TransitionComplete ''2-3'',
        FadeToLevelTick [(''frogs'', 1/4), (''night'', 1/4), (''insects'', 1/2)] (1/2) 2,
        FadeToLevelTick [(''frogs'', 49/200), (''night'', 49/200), (''insects'', 49/100)] (1/2) 0,
        AmbientRetarget ''2-3'', TransitionComplete ''2-3'']
   \<and> map due (timers (runSceneTransition ''2-3'' inFlight)) = [300, 5500, 30, 30, 320, 5520]"
  by code_simp

text \<open>
  Claim C3, amended.  \<open>runSceneTransition\<close> does not check for a transition in flight: every
  call with the scene container present and a configured key runs the start effects, starts
  the ambient fade to one half (for the keys 2-3, 4-5 and 6-7, when ambient layers exist) and
  schedules its own \<open>onComplete\<close> at the spec's duration, and every timer already pending,
  the \<open>onComplete\<close> of an earlier transition included, stays scheduled.
\<close>

theorem runSceneTransition_unguarded:
  assumes "sceneEl s" and "TRANSITIONS k = Some config"
  shows "trace (runSceneTransition k s) = trace s @ [(now s, OnStart k)]
       \<and> (\<exists>added i.
             timers (runSceneTransition k s) =
               timers s @ added @
                 [\<lparr>tid = i, due = now s + duration config, period = None,
                   cb = TransitionComplete k\<rparr>]
             \<and> (usesSteps k \<and> ambientLayers s \<noteq> []
                  \<longrightarrow> (\<exists>i' p. \<lparr>tid = i', due = now s + p, period = Some p,
                               cb = FadeToLevelTick (captureVolumes (ambientLayers s)) (1/2) 0\<rparr>
                              \<in> set added)))"
proof -
  define s1 where "s1 =
    (if usesSteps k
     then fadeAmbientToLevel (1/2) (audioFadeOut config) (playTransition ''Steps.wav'' True (3/5) s)
     else if k \<noteq> ''3-4'' then playTransition ''Swoosh.wav'' False (7/10) s else s)"
  define s2 where "s2 = onStart k s1"
  define s3 where "s3 = setTimeout (AmbientRetarget k) (audioFadeIn config) s2"
  have eq: "runSceneTransition k s = setTimeout (TransitionComplete k) (duration config) s3"
    using assms by (simp add: runSceneTransition_def Let_def s1_def s2_def s3_def)
  have f1: "now s1 = now s" "trace s1 = trace s"
    by (simp_all add: s1_def)
  define a1 where "a1 =
    (if usesSteps k \<and> ambientLayers s \<noteq> []
     then [\<lparr>tid = nextTimer (playTransition ''Steps.wav'' True (3/5) s),
            due = now s + audioFadeOut config / of_nat steps,
            period = Some (audioFadeOut config / of_nat steps),
            cb = FadeToLevelTick (captureVolumes (ambientLayers s)) (1/2) 0\<rparr>]
     else [])"
  have a1: "timers s1 = timers s @ a1"
    "usesSteps k \<and> ambientLayers s \<noteq> []
       \<longrightarrow> (\<exists>i' p. \<lparr>tid = i', due = now s + p, period = Some p,
                    cb = FadeToLevelTick (captureVolumes (ambientLayers s)) (1/2) 0\<rparr> \<in> set a1)"
    by (auto simp add: s1_def a1_def timers_fadeAmbientToLevel)
  obtain a2 where a2: "timers s2 = timers s1 @ a2"
    using timers_onStart [of k s1] by (auto simp add: s2_def)
  have f2: "now s2 = now s" "trace s2 = trace s @ [(now s, OnStart k)]"
    using f1 by (simp_all add: s2_def)
  have f3: "now s3 = now s" "trace s3 = trace s @ [(now s, OnStart k)]"
    "timers s3 = timers s @ (a1 @ a2 @
        [\<lparr>tid = nextTimer s2, due = now s + audioFadeIn config, period = None,
          cb = AmbientRetarget k\<rparr>])"
    using f2 a1(1) a2 by (simp_all add: s3_def setTimeout_def)
  have "timers (runSceneTransition k s) =
      timers s @ (a1 @ a2 @
        [\<lparr>tid = nextTimer s2, due = now s + audioFadeIn config, period = None,
          cb = AmbientRetarget k\<rparr>]) @
        [\<lparr>tid = nextTimer s3, due = now s + duration config, period = None,
          cb = TransitionComplete k\<rparr>]"
    unfolding eq using f3 by (simp add: setTimeout_def)
  moreover have "trace (runSceneTransition k s) = trace s @ [(now s, OnStart k)]"
    unfolding eq using f3 by simp
  ultimately show ?thesis
    using a1(2) by (intro conjI exI [of _ "a1 @ a2 @
        [\<lparr>tid = nextTimer s2, due = now s + audioFadeIn config, period = None,
          cb = AmbientRetarget k\<rparr>]"] exI [of _ "nextTimer s3"]) auto
qed

theorem runSceneTransition_unguarded_witness:
  "sceneEl inFlight
   \<and> TRANSITIONS ''2-3'' = Some \<lparr>duration = 5500, audioFadeOut = 500, audioFadeIn = 300\<rparr>
   \<and> now inFlight = 20
   \<and> trace (runSceneTransition ''2-3'' inFlight) = trace inFlight @ [(20, OnStart ''2-3'')]
   \<and> (\<exists>added i.
         timers (runSceneTransition ''2-3'' inFlight) =
           timers inFlight @ added @
             [\<lparr>tid = i, due = 5520, period = None, cb = TransitionComplete ''2-3''\<rparr>])"
proof -
  have h: "sceneEl inFlight"
    "TRANSITIONS ''2-3'' = Some \<lparr>duration = 5500, audioFadeOut = 500, audioFadeIn = 300\<rparr>"
    by code_simp+
  have n: "now inFlight = 20"
    by code_simp
  show ?thesis
    using runSceneTransition_unguarded [OF h] h n by auto
qed








text \<open>
  Claim C7.  For every key of \<open>TRANSITIONS\<close> whose duration is 5500 ms, a run of
  \<^verbatim>\<open>runSceneTransition\<close> started with no timer pending calls the \<^verbatim>\<open>onComplete\<close> of that key
  exactly once, at 5500 ms after the start: up to any clock time before that, no
  \<^verbatim>\<open>onComplete\<close> has been called, and up to any clock time from then on, exactly one has.
\<close>

theorem onComplete_exactly_once:
  assumes "sceneEl s" and "timers s = []"
    and "TRANSITIONS k = Some config" and "duration config = 5500"
  shows "completions (trace (runUntil T (runSceneTransition k s))) =
           completions (trace s) @
             (if now s + 5500 \<le> T then [(now s + 5500, OnComplete k)] else [])"
proof -
  define D where "D = now s + 5500"
  define base where "base = completions (trace s)"
  define isC where "isC u = isCompletion (cb u)" for u :: timer
  define I where "I x \<longleftrightarrow>
      (\<forall>u\<in>set (timers x). quiet (cb u) \<and> (isC u \<longrightarrow> cb u = TransitionComplete k \<and> due u = D))
      \<and> ((completions (trace x) = base \<and> now x \<le> D \<and> length (filter isC (timers x)) = 1)
         \<or> (completions (trace x) = base @ [(D, OnComplete k)] \<and> filter isC (timers x) = []
            \<and> D \<le> T))" for x :: state
  obtain fade i j where tms: "timers (runSceneTransition k s) =
        timers s @ fade
          @ [\<lparr>tid = i, due = now s + 300, period = None, cb = AmbientRetarget k\<rparr>,
             \<lparr>tid = j, due = now s + 5500, period = None, cb = TransitionComplete k\<rparr>]"
      "\<forall>u\<in>set fade. audioOnly (cb u)"
    using runSceneTransition_steps(3) [OF assms(1,3,4)] by auto
  have fq: "quiet (cb u) \<and> \<not> isC u" if "u \<in> set fade" for u
    using tms(2) that audioOnly_quiet by (auto simp add: isC_def)
  then have ff: "filter isC fade = []"
    by (simp add: filter_empty_conv)
  have init: "I (runSceneTransition k s)"
    unfolding I_def
    using fq ff assms(2) runSceneTransition_steps(1,2) [OF assms(1,3,4)]
    by (auto simp add: tms(1) isC_def D_def base_def completions_def)
  have pres: "I (dispatch tm x)" if "I x" and "earliest (timers x) = Some tm" and "due tm \<le> T"
    for x tm
  proof -
    have mem: "tm \<in> set (timers x)"
      using that(2) by (rule earliest_mem)
    have all: "\<forall>u\<in>set (timers x). quiet (cb u)
                \<and> (isC u \<longrightarrow> cb u = TransitionComplete k \<and> due u = D)"
      using that(1) by (simp add: I_def)
    have q: "quiet (cb tm)"
      using all mem by simp
    obtain new where new: "timers (dispatch tm x) = remove1 tm (timers x) @ new"
        "\<forall>u\<in>set new. audioOnly (cb u)"
      using dispatch_quiet(3) [OF mem q] by auto
    have nq: "quiet (cb u) \<and> \<not> isC u" if "u \<in> set new" for u
      using new(2) that audioOnly_quiet by (auto simp add: isC_def)
    then have nf: "filter isC new = []"
      by (simp add: filter_empty_conv)
    have part1: "\<forall>u\<in>set (timers (dispatch tm x)). quiet (cb u)
                \<and> (isC u \<longrightarrow> cb u = TransitionComplete k \<and> due u = D)"
    proof
      fix u
      assume "u \<in> set (timers (dispatch tm x))"
      then have "u \<in> set (timers x) \<or> u \<in> set new"
        using new(1) set_remove1_subset [of tm "timers x"] by auto
      then show "quiet (cb u) \<and> (isC u \<longrightarrow> cb u = TransitionComplete k \<and> due u = D)"
        using all nq by auto
    qed
    show ?thesis
    proof (cases "isC tm")
      case False
      then have nc: "(case cb tm of TransitionComplete k \<Rightarrow> [(max (now x) (due tm), OnComplete k)]
                      | _ \<Rightarrow> []) = []"
        by (cases "cb tm") (simp_all add: isC_def)
      have c: "completions (trace (dispatch tm x)) = completions (trace x)"
        using dispatch_quiet(2) [OF mem q] nc by simp
      have f: "filter isC (timers (dispatch tm x)) = filter isC (timers x)"
        using new(1) nf False by (simp add: filter_remove1_other)
      have n: "now (dispatch tm x) \<le> D"
        if le: "now x \<le> D" and one: "length (filter isC (timers x)) = 1"
      proof -
        obtain C where "C \<in> set (filter isC (timers x))"
          using one by (cases "filter isC (timers x)") auto
        then have C: "C \<in> set (timers x)" "isC C"
          by simp_all
        then have "due C = D"
          using all by simp
        moreover have "due tm \<le> due C"
          using earliest_le [OF \<open>earliest (timers x) = Some tm\<close> C(1)] .
        ultimately show ?thesis
          using dispatch_quiet(4) [OF mem q] le by simp
      qed
      show ?thesis
        unfolding I_def using part1 c f n that(1) by (auto simp add: I_def)
    next
      case True
      then have t: "cb tm = TransitionComplete k" "due tm = D"
        using all mem by simp_all
      have "filter isC (timers x) \<noteq> []"
        using mem True by (auto simp add: filter_empty_conv)
      then have first: "completions (trace x) = base" "now x \<le> D"
          "length (filter isC (timers x)) = 1"
        using that(1) by (auto simp add: I_def)
      have c: "completions (trace (dispatch tm x)) = base @ [(D, OnComplete k)]"
        using dispatch_quiet(2) [OF mem q] t first(1,2) by (simp add: max_def)
      have "length (filter isC (remove1 tm (timers x))) = 0"
        using length_filter_remove1 [of tm "timers x" isC] mem True first(3) by simp
      then have f: "filter isC (timers (dispatch tm x)) = []"
        using new(1) nf by simp
      have "D \<le> T"
        using that(3) t(2) by simp
      then show ?thesis
        unfolding I_def using part1 c f by simp
    qed
  qed
  have "\<exists>s'. I s' \<and> (\<forall>u\<in>set (timers s'). T < due u)
            \<and> runUntil T (runSceneTransition k s) = s'\<lparr>now := max (now s') T\<rparr>"
    by (rule runUntil_invariant [of I "runSceneTransition k s" T, OF init]) (rule pres)
  then obtain x where "I x \<and> (\<forall>u\<in>set (timers x). T < due u)
      \<and> runUntil T (runSceneTransition k s) = x\<lparr>now := max (now x) T\<rparr>" ..
  then have x: "I x" "\<forall>u\<in>set (timers x). T < due u"
      "trace (runUntil T (runSceneTransition k s)) = trace x"
    by simp_all
  have all: "\<forall>u\<in>set (timers x). isC u \<longrightarrow> due u = D"
    using x(1) by (simp add: I_def)
  show ?thesis
  proof (cases "D \<le> T")
    case True
    have "filter isC (timers x) = []"
    proof (rule ccontr)
      assume "filter isC (timers x) \<noteq> []"
      then obtain C where "C \<in> set (filter isC (timers x))"
        by (cases "filter isC (timers x)") auto
      then have "C \<in> set (timers x)" "isC C"
        by simp_all
      then have "T < D"
        using all x(2) by auto
      then show False
        using True by simp
    qed
    then have "completions (trace x) = base @ [(D, OnComplete k)]"
      using x(1) by (auto simp add: I_def)
    then show ?thesis
      using True x(3) by (simp add: D_def base_def)
  next
    case False
    then have "completions (trace x) = base"
      using x(1) by (auto simp add: I_def)
    then show ?thesis
      using False x(3) by (simp add: D_def base_def)
  qed
qed

text \<open>
  The transition 2-3 started on scene 2 at 0 ms: no \<^verbatim>\<open>onComplete\<close> up to 5499 ms, one at
  5500 ms, and still one at 9000 ms.
\<close>

theorem onComplete_exactly_once_witness:
  "sceneEl scene2Page \<and> timers scene2Page = []
   \<and> TRANSITIONS ''2-3'' = Some \<lparr>duration = 5500, audioFadeOut = 500, audioFadeIn = 300\<rparr>
   \<and> completions (trace (runUntil 5499 (runSceneTransition ''2-3'' scene2Page))) = []
   \<and> completions (trace (runUntil 5500 (runSceneTransition ''2-3'' scene2Page)))
       = [(5500, OnComplete ''2-3'')]
   \<and> completions (trace (runUntil 9000 (runSceneTransition ''2-3'' scene2Page)))
       = [(5500, OnComplete ''2-3'')]"
proof -
  have h: "sceneEl scene2Page" "timers scene2Page = []" "now scene2Page = 0"
      "completions (trace scene2Page) = []"
    by code_simp+
  have c: "TRANSITIONS ''2-3'' = Some \<lparr>duration = 5500, audioFadeOut = 500, audioFadeIn = 300\<rparr>"
    by (simp add: TRANSITIONS_def)
  note t = onComplete_exactly_once [OF h(1,2) c]
  show ?thesis
    using t [of 5499] t [of 5500] t [of 9000] h c by simp
qed




text \<open>
  Claim C9.  For every sentence count the computed bubble size is
  \<open>520 + max 0 (min n 5 - 3) * 80\<close>: it is 520 for every count up to 3, 600 for
  count 4 and 680 for every count from 5 on (count 7 gives 680), and the size never
  decreases when the count grows.
\<close>

theorem calculateBubbleSize_formula:
  "calculateBubbleSize n = 520 + max 0 (min n 5 - 3) * 80
   \<and> (n \<le> 3 \<longrightarrow> calculateBubbleSize n = 520)
   \<and> calculateBubbleSize 4 = 600
   \<and> (5 \<le> n \<longrightarrow> calculateBubbleSize n = 680)
   \<and> calculateBubbleSize 7 = 680
   \<and> (n \<le> m \<longrightarrow> calculateBubbleSize n \<le> calculateBubbleSize m)"
  by (simp add: calculateBubbleSize_def baseSentences_def baseSize_def maxSentences_def
      growthPerSentence_def Let_def min_def max_def)

theorem calculateBubbleSize_formula_witness:
  "calculateBubbleSize 2 = 520 + max 0 (min 2 5 - 3) * 80
   \<and> ((2::int) \<le> 3 \<and> calculateBubbleSize 2 = 520)
   \<and> calculateBubbleSize 4 = 600
   \<and> ((5::int) \<le> 9 \<and> calculateBubbleSize 9 = 680)
   \<and> calculateBubbleSize 7 = 680
   \<and> ((2::int) \<le> 9 \<and> calculateBubbleSize 2 \<le> calculateBubbleSize 9)"
  using calculateBubbleSize_formula [of 2 9] calculateBubbleSize_formula [of 9 9]
  by simp

text \<open>
  Claim C10.  When the content of a bubble holds no sentence elements, expanding it uses the
  default count 3: the bubble gets the base size 520 and a single page, and its button reads
  "Pop!" from the start.
\<close>

theorem expandBubble_without_sentences:
  assumes "getBubble i s = Some b" and "\<not> hasClass ''expanded'' b" and "sceneEl s"
    and "sentenceEls b = 0" and "hasCta b"
  shows "\<exists>b'. getBubble i (expandBubble i s) = Some b'
           \<and> dynamicSize b' = Some (calculateBubbleSize 3) \<and> calculateBubbleSize 3 = 520
           \<and> totalPages b' = 1 \<and> currentPage b' = 1 \<and> wired b' \<and> ctaText b' = ''Pop!''"
proof -
  let ?f = "\<lambda>b. b\<lparr>dynamicSize := Some (calculateBubbleSize 3), currentPage := 1,
               totalPages := ceilDiv 3 sentencesPerPage,
               ctaText := (if hasCta b
                           then (if 1 < ceilDiv 3 sentencesPerPage then ''Volgende'' else ''Pop!'')
                           else ctaText b),
               wired := hasCta b,
               classList := classAdd ''expanded'' (classList b)\<rparr>"
  have "getBubble i (expandBubble i s) = getBubble i (updBubble i ?f (cancelCrowSound s))"
    using assms by (simp add: expandBubble_def Let_def getBubble_def)
  also have "\<dots> = map_option ?f (getBubble i (cancelCrowSound s))"
    by (rule getBubble_updBubble) simp
  also have "\<dots> = Some (?f b)"
    using assms(1) by (simp add: getBubble_def)
  finally show ?thesis
    using assms(5)
    by (simp add: ceilDiv_def sentencesPerPage_def calculateBubbleSize_def baseSentences_def
        baseSize_def maxSentences_def Let_def)
qed

theorem expandBubble_without_sentences_witness:
  "getBubble 2 scene2Page = Some (sampleBubble 2 ''bubble-orbit-gamma'' 0)
   \<and> \<not> hasClass ''expanded'' (sampleBubble 2 ''bubble-orbit-gamma'' 0)
   \<and> sceneEl scene2Page
   \<and> sentenceEls (sampleBubble 2 ''bubble-orbit-gamma'' 0) = 0
   \<and> hasCta (sampleBubble 2 ''bubble-orbit-gamma'' 0)
   \<and> (\<exists>b'. getBubble 2 (expandBubble 2 scene2Page) = Some b'
           \<and> dynamicSize b' = Some (calculateBubbleSize 3) \<and> calculateBubbleSize 3 = 520
           \<and> totalPages b' = 1 \<and> currentPage b' = 1 \<and> wired b' \<and> ctaText b' = ''Pop!'')"
proof -
  have h: "getBubble 2 scene2Page = Some (sampleBubble 2 ''bubble-orbit-gamma'' 0)"
    "\<not> hasClass ''expanded'' (sampleBubble 2 ''bubble-orbit-gamma'' 0)"
    "sceneEl scene2Page"
    "sentenceEls (sampleBubble 2 ''bubble-orbit-gamma'' 0) = 0"
    "hasCta (sampleBubble 2 ''bubble-orbit-gamma'' 0)"
    by code_simp+
  show ?thesis
    using expandBubble_without_sentences [OF h] h by blast
qed

end
